theory Spec2Isabelle
  imports Main "HOL-Library.Word"
begin

section \<open>Python values used by \<open>docx_diagnostic.py\<close>\<close>

text \<open>
  A Python \<open>str\<close> is a sequence of Unicode code points, a \<open>bytes\<close> object a sequence of
  octets. The diagnostic scans decoded text for code points up to \<open>0xFFFF\<close>, so a \<open>str\<close>
  is modelled as a list of naturals. String constants of the source are written as
  Isabelle literals and lifted with \<open>lit\<close>. Issue categories, statistics keys and the
  report status are constants of the source throughout; they stay Isabelle strings.
\<close>

type_synonym pystr = "nat list"
type_synonym byte = "8 word"

definition lit :: "string \<Rightarrow> pystr" where
  "lit s = map of_char s"

text \<open>\<open>str(n)\<close> for a non-negative integer: decimal digits, most significant first.\<close>

function str_nat :: "nat \<Rightarrow> pystr" where
  "str_nat n = (if n < 10 then [48 + n] else str_nat (n div 10) @ [48 + n mod 10])"
  by pat_completeness auto
termination
  by (relation "measure id") auto

declare str_nat.simps [simp del]

text \<open>\<open>hex(n)\<close>: the prefix \<open>0x\<close> and lower-case hexadecimal digits.\<close>

definition hex_digit :: "nat \<Rightarrow> nat" where
  "hex_digit d = (if d < 10 then 48 + d else 87 + d)"

function hex_digits :: "nat \<Rightarrow> pystr" where
  "hex_digits n = (if n < 16 then [hex_digit n] else hex_digits (n div 16) @ [hex_digit (n mod 16)])"
  by pat_completeness auto
termination
  by (relation "measure id") auto

declare hex_digits.simps [simp del]

definition hex :: "nat \<Rightarrow> pystr" where
  "hex n = lit ''0x'' @ hex_digits n"

text \<open>\<open>sep.join(xs)\<close>.\<close>

fun join :: "pystr \<Rightarrow> pystr list \<Rightarrow> pystr" where
  "join sep [] = []"
| "join sep [x] = x"
| "join sep (x # y # ys) = x @ sep @ join sep (y # ys)"

text \<open>\<open>s.startswith(p)\<close>, \<open>s.endswith(p)\<close> and \<open>p in s\<close> for strings.\<close>

definition startswith :: "pystr \<Rightarrow> pystr \<Rightarrow> bool" where
  "startswith s p = (take (length p) s = p)"

definition endswith :: "pystr \<Rightarrow> pystr \<Rightarrow> bool" where
  "endswith s p = (length p \<le> length s \<and> drop (length s - length p) s = p)"

fun contains :: "pystr \<Rightarrow> pystr \<Rightarrow> bool" where
  "contains p [] = (p = [])"
| "contains p (c # cs) = (startswith (c # cs) p \<or> contains p cs)"

text \<open>\<open>s.split(sep)\<close> for a one-character separator.\<close>

fun split :: "nat \<Rightarrow> pystr \<Rightarrow> pystr list" where
  "split sep [] = [[]]"
| "split sep (c # cs) =
     (if c = sep then [] # split sep cs
      else (case split sep cs of [] \<Rightarrow> [[c]] | w # ws \<Rightarrow> (c # w) # ws))"

text \<open>\<open>s.replace(old, new)\<close> for a one-character \<open>old\<close>.\<close>

definition replace :: "nat \<Rightarrow> pystr \<Rightarrow> pystr \<Rightarrow> pystr" where
  "replace old new s = concat (map (\<lambda>c. if c = old then new else [c]) s)"

text \<open>The truth value Python gives an optional string: \<open>None\<close> and \<open>''\<close> are false.\<close>

definition truthy :: "pystr option \<Rightarrow> bool" where
  "truthy x = (case x of None \<Rightarrow> False | Some s \<Rightarrow> s \<noteq> [])"

text \<open>
  The exceptions the source distinguishes in its \<open>except\<close> clauses, each carrying the text
  \<open>str(e)\<close> gives; every other subclass of \<open>Exception\<close> is \<open>OtherError\<close>.
\<close>

datatype exn =
    BadZipFile pystr
  | ParseError pystr
  | KeyError pystr
  | OtherError pystr

fun exn_str :: "exn \<Rightarrow> pystr" where
  "exn_str (BadZipFile m) = m"
| "exn_str (ParseError m) = m"
| "exn_str (KeyError m) = m"
| "exn_str (OtherError m) = m"

section \<open>Issues and the diagnostic object\<close>

datatype severity = ERROR | WARNING | INFO

fun severity_str :: "severity \<Rightarrow> pystr" where
  "severity_str ERROR = lit ''ERROR''"
| "severity_str WARNING = lit ''WARNING''"
| "severity_str INFO = lit ''INFO''"

record issue =
  severity :: severity
  category :: string
  message :: pystr
  location :: "pystr option"
  context' :: "pystr option"
  suggestion :: "pystr option"

text \<open>\<open>Issue.to_dict\<close>: the optional fields appear only when they are true.\<close>

definition to_dict :: "issue \<Rightarrow> (string \<times> pystr) list" where
  "to_dict i =
     [(''severity'', severity_str (severity i)),
      (''category'', lit (category i)),
      (''message'', message i)]
     @ (if truthy (location i) then [(''location'', the (location i))] else [])
     @ (if truthy (context' i) then [(''context'', the (context' i))] else [])
     @ (if truthy (suggestion i) then [(''suggestion'', the (suggestion i))] else [])"

text \<open>
  The values stored in \<open>self.stats\<close>: an integer, the file size in MiB rounded to two
  decimals (kept as a number of hundredths), or the dictionary of tracked-change counts.
\<close>

datatype stat = SInt nat | SCenti nat | SDict "(string \<times> nat) list"

text \<open>
  An archive as \<open>zipfile.ZipFile\<close> presents it: what \<open>testzip()\<close> does (it returns the name
  of the first corrupted member or \<open>None\<close>, or raises), and the members in archive order.
  \<open>open(name)\<close> reads the last member of that name and raises \<open>KeyError\<close> when there is
  none. The members that are read are taken to be intact: \<open>read()\<close> of a member whose
  checksum fails raises \<open>BadZipFile\<close>, which \<open>zip_read\<close> does not model, so the statements
  about a member that was read are about a member whose bytes could be read. The handle
  remembers whether \<open>close()\<close> was called.
\<close>

record archive =
  testzip :: "exn + pystr option"
  entries :: "(pystr \<times> byte list) list"

definition namelist :: "archive \<Rightarrow> pystr list" where
  "namelist ar = map fst (entries ar)"

definition zip_read :: "archive \<Rightarrow> pystr \<Rightarrow> byte list option" where
  "zip_read ar name = map_of (rev (entries ar)) name"

record zip_handle =
  archive :: archive
  closed :: bool

record diag =
  filepath :: pystr
  verbose :: bool
  issues :: "issue list"
  stats :: "string \<rightharpoonup> stat"
  zip_file :: "zip_handle option"

text \<open>\<open>DocxDiagnostic.__init__\<close>.\<close>

definition init :: "pystr \<Rightarrow> bool \<Rightarrow> diag" where
  "init path v = \<lparr>filepath = path, verbose = v, issues = [], stats = Map.empty, zip_file = None\<rparr>"

definition add_issue ::
  "severity \<Rightarrow> string \<Rightarrow> pystr \<Rightarrow> pystr option \<Rightarrow> pystr option \<Rightarrow> pystr option \<Rightarrow> diag \<Rightarrow> diag" where
  "add_issue sev cat msg loc ctx sug st =
     st\<lparr>issues := issues st @
       [\<lparr>severity = sev, category = cat, message = msg, location = loc, context' = ctx,
         suggestion = sug\<rparr>]\<rparr>"

definition set_stat :: "string \<Rightarrow> stat \<Rightarrow> diag \<Rightarrow> diag" where
  "set_stat k v st = st\<lparr>stats := (stats st)(k \<mapsto> v)\<rparr>"

section \<open>\<open>get_summary\<close>\<close>

record summary =
  file' :: pystr
  status :: string
  errors :: nat
  warnings :: nat
  info :: nat
  statistics :: "string \<rightharpoonup> stat"
  issue_dicts :: "(string \<times> pystr) list list"

definition count_severity :: "severity \<Rightarrow> issue list \<Rightarrow> nat" where
  "count_severity sev is = length (filter (\<lambda>i. severity i = sev) is)"

definition get_summary :: "diag \<Rightarrow> summary" where
  "get_summary st =
     (let error_count = count_severity ERROR (issues st);
          warning_count = count_severity WARNING (issues st);
          info_count = count_severity INFO (issues st)
      in \<lparr>file' = filepath st,
          status = (if error_count > 0 then ''FAIL''
                    else if warning_count > 0 then ''WARN'' else ''PASS''),
          errors = error_count,
          warnings = warning_count,
          info = info_count,
          statistics = stats st,
          issue_dicts = map to_dict (issues st)\<rparr>)"

section \<open>The environment of one run\<close>

text \<open>
  An element of \<open>xml.etree.ElementTree\<close>: tag, attribute dictionary, text, children.
  Namespaced tags and attribute names are written \<open>{uri}local\<close>, as ElementTree keeps them.
\<close>

datatype elem = Elem (tag: pystr) (attrib: "(pystr \<times> pystr) list") (etext: "pystr option")
  (children: "elem list")

text \<open>The seven element checks of \<open>_analyze_document_xml\<close>, in the order they are called.\<close>

datatype check =
    TrackedChanges | SmartTags | ContentControls | FieldCodes | Equations | Hyperlinks
  | Namespaces

text \<open>
  What a run reads from outside the class: the file system (\<open>os.path.exists\<close>,
  \<open>os.path.isfile\<close>, \<open>os.path.getsize\<close>), the result of \<open>zipfile.ZipFile(filepath, 'r')\<close>,
  and three library functions taken as parameters: \<open>ET.fromstring\<close> (the XML parser, which
  raises \<open>ParseError\<close> on malformed input), \<open>str.upper\<close>, and the order in which
  \<open>list(set(xs))\<close> enumerates the distinct elements of \<open>xs\<close> (it follows the string hashes
  of the running interpreter). \<open>fault c\<close> is an exception that arises while check \<open>c\<close>
  runs, raised as the check starts; the checks' own code raises none on a parsed tree
  except \<open>_check_namespaces\<close> (see there).
\<close>

record env =
  path_exists :: bool
  path_isfile :: bool
  path_getsize :: nat
  zip_open :: "exn + archive"
  fromstring :: "byte list \<Rightarrow> exn + elem"
  str_upper :: "pystr \<Rightarrow> pystr"
  set_order :: "pystr list \<Rightarrow> pystr list"
  fault :: "check \<Rightarrow> exn option"

section \<open>ElementTree queries\<close>

text \<open>\<open>e.iter()\<close>: the element and all its descendants in document order.\<close>

fun iter :: "elem \<Rightarrow> elem list" where
  "iter (Elem t a x cs) = Elem t a x cs # concat (map iter cs)"

text \<open>
  \<open>root.findall('.//T')\<close> for a plain tag \<open>T\<close>: the descendants of \<open>root\<close> with that tag,
  in document order; \<open>root\<close> itself is never among them.
\<close>

definition findall :: "pystr \<Rightarrow> elem \<Rightarrow> elem list" where
  "findall t root = filter (\<lambda>e. tag e = t) (concat (map iter (children root)))"

text \<open>\<open>e.find(T)\<close>: the first child with tag \<open>T\<close>.\<close>

definition find_child :: "pystr \<Rightarrow> elem \<Rightarrow> elem option" where
  "find_child t e = List.find (\<lambda>c. tag c = t) (children e)"

text \<open>\<open>e.get(key)\<close> and \<open>e.get(key, default)\<close>.\<close>

definition get :: "elem \<Rightarrow> pystr \<Rightarrow> pystr option" where
  "get e k = map_of (attrib e) k"

definition get_default :: "elem \<Rightarrow> pystr \<Rightarrow> pystr \<Rightarrow> pystr" where
  "get_default e k d = (case map_of (attrib e) k of None \<Rightarrow> d | Some v \<Rightarrow> v)"

definition ns_w :: pystr where
  "ns_w = lit ''http://schemas.openxmlformats.org/wordprocessingml/2006/main''"

definition ns_r :: pystr where
  "ns_r = lit ''http://schemas.openxmlformats.org/officeDocument/2006/relationships''"

definition ns_m :: pystr where
  "ns_m = lit ''http://schemas.openxmlformats.org/officeDocument/2006/math''"

definition NAMESPACES :: "(string \<times> pystr) list" where
  "NAMESPACES =
     [(''w'', ns_w),
      (''r'', ns_r),
      (''o'', lit ''urn:schemas-microsoft-com:office:office''),
      (''m'', ns_m),
      (''wp'', lit ''http://schemas.openxmlformats.org/drawingml/2006/wordprocessingDrawing''),
      (''a'', lit ''http://schemas.openxmlformats.org/drawingml/2006/main''),
      (''pic'', lit ''http://schemas.openxmlformats.org/drawingml/2006/picture''),
      (''ct'', lit ''http://schemas.openxmlformats.org/package/2006/content-types''),
      (''rel'', lit ''http://schemas.openxmlformats.org/package/2006/relationships'')]"

text \<open>The qualified tag \<open>{ns}name\<close>.\<close>

definition qname :: "pystr \<Rightarrow> string \<Rightarrow> pystr" where
  "qname ns name = lit ''{'' @ ns @ lit ''}'' @ lit name"

section \<open>\<open>_check_file_exists\<close>\<close>

text \<open>
  \<open>round(size / (1024 * 1024), 2)\<close> as a number of hundredths: the quotient is exact in
  binary floating point for every file size below \<open>2^53\<close>, and \<open>round\<close> rounds the exact
  value to the nearest hundredth, ties to the even one. \<open>str_centi\<close> is the text Python
  prints for the rounded float (\<open>100.0\<close>, \<open>100.5\<close>, \<open>100.25\<close>).
\<close>

definition file_size_mb :: "nat \<Rightarrow> nat" where
  "file_size_mb size' =
     (let n = size' * 25; q = n div 262144; r = n mod 262144
      in if r > 131072 \<or> (r = 131072 \<and> odd q) then q + 1 else q)"

definition str_centi :: "nat \<Rightarrow> pystr" where
  "str_centi q =
     str_nat (q div 100) @ lit ''.'' @
     (let f = q mod 100 in if f mod 10 = 0 then str_nat (f div 10) else [48 + f div 10, 48 + f mod 10])"

definition check_file_exists :: "env \<Rightarrow> diag \<Rightarrow> bool \<times> diag" where
  "check_file_exists ev st =
     (if \<not> path_exists ev then
        (False, add_issue ERROR ''File Access'' (lit ''File not found: '' @ filepath st)
                  None None None st)
      else if \<not> path_isfile ev then
        (False, add_issue ERROR ''File Access'' (lit ''Path is not a file: '' @ filepath st)
                  None None None st)
      else
        let size' = path_getsize ev;
            st1 = set_stat ''file_size_mb'' (SCenti (file_size_mb size'))
                    (set_stat ''file_size'' (SInt size') st)
        in if size' = 0 then
             (False, add_issue ERROR ''File Access'' (lit ''File is empty (0 bytes)'')
                       None None None st1)
           else if size' > 100 * 1024 * 1024 then
             (True, add_issue WARNING ''File Size''
                      (lit ''File is very large ('' @ str_centi (file_size_mb size')
                         @ lit ''MB), may cause performance issues'')
                      None None None st1)
           else (True, st1))"

section \<open>\<open>_check_zip_structure\<close>\<close>

text \<open>The two \<open>except\<close> clauses of \<open>_check_zip_structure\<close>.\<close>

definition zip_error :: "exn \<Rightarrow> diag \<Rightarrow> diag" where
  "zip_error e st =
     (case e of
        BadZipFile m \<Rightarrow>
          add_issue ERROR ''ZIP Structure'' (lit ''Invalid ZIP archive: '' @ m) None None
            (Some (lit ''File is not a valid DOCX. May be corrupted or not a Word document.'')) st
      | _ \<Rightarrow>
          add_issue ERROR ''ZIP Structure'' (lit ''Error reading file: '' @ exn_str e)
            None None None st)"

text \<open>
  \<open>self.zip_file\<close> is assigned as soon as the archive opens, before the integrity test;
  \<open>if bad_file:\<close> tests the truth value of the name \<open>testzip()\<close> returned.
\<close>

definition check_zip_structure :: "env \<Rightarrow> diag \<Rightarrow> bool \<times> diag" where
  "check_zip_structure ev st =
     (case zip_open ev of
        Inl e \<Rightarrow> (False, zip_error e st)
      | Inr ar \<Rightarrow>
          let st1 = st\<lparr>zip_file := Some \<lparr>archive = ar, closed = False\<rparr>\<rparr>
          in (case testzip ar of
                Inl e \<Rightarrow> (False, zip_error e st1)
              | Inr bad_file \<Rightarrow>
                  if truthy bad_file then
                    (False, add_issue ERROR ''ZIP Structure''
                              (lit ''Corrupted file in archive: '' @ the bad_file) None None
                              (Some (lit ''The DOCX archive is corrupted. Try opening and re-saving in Word.''))
                              st1)
                  else (True, set_stat ''zip_files'' (SInt (length (namelist ar))) st1)))"

section \<open>\<open>_check_required_files\<close>\<close>

definition REQUIRED_FILES :: "pystr list" where
  "REQUIRED_FILES = [lit ''[Content_Types].xml'', lit ''_rels/.rels'', lit ''word/document.xml'']"

definition optional_files :: "(pystr \<times> pystr) list" where
  "optional_files =
     [(lit ''word/styles.xml'', lit ''Style definitions missing - default styles will be used''),
      (lit ''word/numbering.xml'',
         lit ''Numbering definitions missing - lists may not render correctly''),
      (lit ''word/settings.xml'', lit ''Settings missing - document settings may be lost'')]"

definition check_required_files :: "diag \<Rightarrow> diag" where
  "check_required_files st =
     (case zip_file st of
        None \<Rightarrow> st
      | Some zf \<Rightarrow>
          let file_list = namelist (archive zf);
              st1 = fold (\<lambda>required s.
                      if required \<notin> set file_list then
                        add_issue ERROR ''DOCX Structure''
                          (lit ''Missing required file: '' @ required) None None
                          (Some (lit ''Document structure is incomplete. May be corrupted.'')) s
                      else s) REQUIRED_FILES st
          in fold (\<lambda>(path, msg) s.
                      if path \<notin> set file_list then
                        add_issue INFO ''DOCX Structure'' msg (Some path) None None s
                      else s) optional_files st1)"

section \<open>\<open>_check_invalid_characters\<close>\<close>

text \<open>
  \<open>content.decode('utf-8')\<close>, Python's strict decoder: shortest forms only, no surrogates,
  nothing above \<open>U+10FFFF\<close>. \<open>utf8_seq\<close> decodes the sequence at the head of the input to
  its code point and length. The decoder returns the text, or the offset of the first
  byte of the first sequence that is not valid (\<open>UnicodeDecodeError.start\<close>).
\<close>

definition cont :: "nat \<Rightarrow> bool" where
  "cont b = (128 \<le> b \<and> b \<le> 191)"

definition utf8_seq :: "nat list \<Rightarrow> (nat \<times> nat) option" where
  "utf8_seq bs =
     (case bs of
        [] \<Rightarrow> None
      | b0 # r \<Rightarrow>
          if b0 < 128 then Some (b0, 1)
          else if 194 \<le> b0 \<and> b0 \<le> 223 then
            (case r of
               b1 # _ \<Rightarrow> if cont b1 then Some ((b0 - 192) * 64 + (b1 - 128), 2) else None
             | _ \<Rightarrow> None)
          else if 224 \<le> b0 \<and> b0 \<le> 239 then
            (case r of
               b1 # b2 # _ \<Rightarrow>
                 if (if b0 = 224 then 160 \<le> b1 \<and> b1 \<le> 191
                     else if b0 = 237 then 128 \<le> b1 \<and> b1 \<le> 159
                     else cont b1) \<and> cont b2
                 then Some ((b0 - 224) * 4096 + (b1 - 128) * 64 + (b2 - 128), 3)
                 else None
             | _ \<Rightarrow> None)
          else if 240 \<le> b0 \<and> b0 \<le> 244 then
            (case r of
               b1 # b2 # b3 # _ \<Rightarrow>
                 if (if b0 = 240 then 144 \<le> b1 \<and> b1 \<le> 191
                     else if b0 = 244 then 128 \<le> b1 \<and> b1 \<le> 143
                     else cont b1) \<and> cont b2 \<and> cont b3
                 then Some ((b0 - 240) * 262144 + (b1 - 128) * 4096 + (b2 - 128) * 64
                              + (b3 - 128), 4)
                 else None
             | _ \<Rightarrow> None)
          else None)"

lemma utf8_seq_length:
  "utf8_seq bs = Some (cp, n) \<Longrightarrow> 0 < n \<and> n \<le> length bs"
  by (auto simp: utf8_seq_def split: list.splits if_splits)

function utf8_from :: "nat \<Rightarrow> nat list \<Rightarrow> nat + pystr" where
  "utf8_from pos bs =
     (if bs = [] then Inr []
      else (case utf8_seq bs of
              None \<Rightarrow> Inl pos
            | Some (cp, n) \<Rightarrow>
                (case utf8_from (pos + n) (drop n bs) of
                   Inl e \<Rightarrow> Inl e
                 | Inr cs \<Rightarrow> Inr (cp # cs))))"
  by pat_completeness auto
termination utf8_from
  by (relation "measure (\<lambda>(pos, bs). length bs)") (auto dest: utf8_seq_length)

declare utf8_from.simps [simp del]

definition decode_utf8 :: "byte list \<Rightarrow> nat + pystr" where
  "decode_utf8 content = utf8_from 0 (map unat content)"

definition INVALID_CHAR_RANGES :: "(nat \<times> nat) list" where
  "INVALID_CHAR_RANGES =
     [(0x00, 0x08), (0x0B, 0x0C), (0x0E, 0x1F), (0x7F, 0x7F), (0xFFFE, 0xFFFF)]"

definition is_invalid_char :: "nat \<Rightarrow> bool" where
  "is_invalid_char code = list_ex (\<lambda>(start, end'). start \<le> code \<and> code \<le> end') INVALID_CHAR_RANGES"

record invalid_item =
  item_char :: pystr
  item_position :: nat
  item_line :: nat
  item_context :: pystr

text \<open>
  The dictionary appended to \<open>invalid_found\<close> for the character at index \<open>i\<close> of the
  text, with its keys \<open>char\<close>, \<open>position\<close>, \<open>line\<close> and \<open>context\<close>.
  In the context, a newline (10) becomes backslash (92) and \<open>n\<close> (110), a carriage
  return (13) backslash and \<open>r\<close> (114).
\<close>

definition invalid_entry :: "pystr \<Rightarrow> nat \<Rightarrow> invalid_item" where
  "invalid_entry text' i =
     (let ctx_start = i - 20;
          ctx_end = min (length text') (i + 20)
      in \<lparr>item_char = hex (text' ! i),
          item_position = i,
          item_line = count_list (take i text') 10 + 1,
          item_context = replace 13 [92, 114]
                      (replace 10 [92, 110] (take (ctx_end - ctx_start) (drop ctx_start text')))\<rparr>)"

definition invalid_found :: "pystr \<Rightarrow> invalid_item list" where
  "invalid_found text' =
     map (invalid_entry text') (filter (\<lambda>i. is_invalid_char (text' ! i)) [0..<length text'])"

text \<open>
  \<open>char_counts\<close>: a \<open>defaultdict(int)\<close>, which keeps its keys in the order of first
  insertion.
\<close>

fun bump :: "pystr \<Rightarrow> (pystr \<times> nat) list \<Rightarrow> (pystr \<times> nat) list" where
  "bump k [] = [(k, 1)]"
| "bump k ((k', c) # kcs) = (if k' = k then (k', c + 1) # kcs else (k', c) # bump k kcs)"

definition char_counts :: "invalid_item list \<Rightarrow> (pystr \<times> nat) list" where
  "char_counts items = fold (\<lambda>item counts. bump (item_char item) counts) items []"

definition check_invalid_characters :: "byte list \<Rightarrow> pystr \<Rightarrow> diag \<Rightarrow> diag" where
  "check_invalid_characters content filename st =
     (case decode_utf8 content of
        Inl start \<Rightarrow>
          add_issue ERROR ''Encoding'' (lit ''Invalid UTF-8 encoding in '' @ filename)
            (Some (lit ''Byte position: '' @ str_nat start)) None
            (Some (lit ''Document contains invalid byte sequences. May need manual repair.'')) st
      | Inr text' \<Rightarrow>
          let found = invalid_found text' in
          if found \<noteq> [] then
            let summary = join (lit '', '')
                  (map (\<lambda>(c, n). c @ lit '': '' @ str_nat n @ lit ''x'') (char_counts found));
                st1 = add_issue ERROR ''Invalid Characters''
                        (lit ''Found '' @ str_nat (length found)
                           @ lit '' invalid XML character(s) in '' @ filename)
                        (Some (lit ''Characters found: '' @ summary))
                        (Some (item_context (hd found)))
                        (Some (lit ''Remove control characters. These often come from copy/paste operations.''))
                        st
            in if verbose st then
                 fold (\<lambda>item s.
                         add_issue INFO ''Invalid Character Detail''
                           (lit ''Character '' @ item_char item @ lit '' at line ''
                              @ str_nat (item_line item) @ lit '', position ''
                              @ str_nat (item_position item))
                           None (Some (item_context item)) None s)
                      (take 5 found) st1
               else st1
          else st)"

section \<open>The element checks\<close>

definition check_tracked_changes :: "elem \<Rightarrow> diag \<Rightarrow> diag" where
  "check_tracked_changes root st =
     (let insertions = findall (qname ns_w ''ins'') root;
          deletions = findall (qname ns_w ''del'') root;
          para_changes = findall (qname ns_w ''pPrChange'') root;
          run_changes = findall (qname ns_w ''rPrChange'') root;
          total_revisions = length insertions + length deletions + length para_changes
                              + length run_changes;
          st1 = set_stat ''tracked_changes''
                  (SDict [(''insertions'', length insertions),
                          (''deletions'', length deletions),
                          (''paragraph_changes'', length para_changes),
                          (''run_changes'', length run_changes),
                          (''total'', total_revisions)]) st
      in if total_revisions > 0 then
           let sev = (if total_revisions < 100 then WARNING else ERROR);
               st2 = add_issue sev ''Tracked Changes''
                       (lit ''Document contains '' @ str_nat total_revisions
                          @ lit '' tracked change(s)'')
                       (Some (lit ''Insertions: '' @ str_nat (length insertions)
                                @ lit '', Deletions: '' @ str_nat (length deletions)
                                @ lit '', Paragraph changes: '' @ str_nat (length para_changes)
                                @ lit '', Run changes: '' @ str_nat (length run_changes)))
                       None
                       (Some (lit ''Accept or reject all tracked changes before processing to avoid issues.''))
                       st1
           in if list_ex (\<lambda>ins. findall (qname ns_w ''del'') ins \<noteq> []) insertions then
                add_issue WARNING ''Nested Revisions''
                  (lit ''Found deletions nested inside insertions (complex revision structure)'')
                  None None
                  (Some (lit ''This can cause processing issues. Accept all changes in Word first.''))
                  st2
              else st2
         else st1)"

definition check_smart_tags :: "elem \<Rightarrow> diag \<Rightarrow> diag" where
  "check_smart_tags root st =
     (let smart_tags = findall (qname ns_w ''smartTag'') root;
          st1 = set_stat ''smart_tags'' (SInt (length smart_tags)) st
      in if smart_tags \<noteq> [] then
           add_issue WARNING ''Smart Tags''
             (lit ''Document contains '' @ str_nat (length smart_tags)
                @ lit '' deprecated smart tag(s)'')
             None None
             (Some (lit ''Smart tags are deprecated and may cause processing issues. Open in Word and save to remove them.''))
             st1
         else st1)"

definition is_locked :: "elem \<Rightarrow> bool" where
  "is_locked sdt =
     (case find_child (qname ns_w ''sdtPr'') sdt of
        None \<Rightarrow> False
      | Some sdt_pr \<Rightarrow>
          (case find_child (qname ns_w ''lock'') sdt_pr of
             None \<Rightarrow> False
           | Some lock \<Rightarrow>
               get_default lock (qname ns_w ''val'') []
                 \<in> set [lit ''sdtLocked'', lit ''contentLocked'', lit ''sdtContentLocked'']))"

definition check_content_controls :: "elem \<Rightarrow> diag \<Rightarrow> diag" where
  "check_content_controls root st =
     (let sdt_elements = findall (qname ns_w ''sdt'') root;
          st1 = set_stat ''content_controls'' (SInt (length sdt_elements)) st
      in if sdt_elements \<noteq> [] then
           let locked_count = length (filter is_locked sdt_elements)
           in if locked_count > 0 then
                add_issue WARNING ''Content Controls''
                  (lit ''Document contains '' @ str_nat locked_count
                     @ lit '' locked content control(s)'')
                  None None
                  (Some (lit ''Locked content controls may prevent editing. Unlock them in Word if needed.''))
                  st1
              else
                add_issue INFO ''Content Controls''
                  (lit ''Document contains '' @ str_nat (length sdt_elements)
                     @ lit '' content control(s)'')
                  None None None st1
         else st1)"

text \<open>The \<open>if\<close>/\<open>elif\<close> chain over the upper-cased instruction text.\<close>

definition field_type :: "env \<Rightarrow> elem \<Rightarrow> pystr option" where
  "field_type ev instr =
     (let t = str_upper ev (case etext instr of None \<Rightarrow> [] | Some x \<Rightarrow> x)
      in if contains (lit ''TOC'') t then Some (lit ''Table of Contents'')
         else if contains (lit ''REF'') t then Some (lit ''Cross-reference'')
         else if contains (lit ''HYPERLINK'') t then Some (lit ''Hyperlink'')
         else if contains (lit ''MERGEFIELD'') t then Some (lit ''Mail Merge'')
         else if contains (lit ''PAGE'') t then Some (lit ''Page Number'')
         else if contains (lit ''DATE'') t \<or> contains (lit ''TIME'') t then Some (lit ''Date/Time'')
         else None)"

definition check_field_codes :: "env \<Rightarrow> elem \<Rightarrow> diag \<Rightarrow> diag" where
  "check_field_codes ev root st =
     (let field_chars = findall (qname ns_w ''fldChar'') root;
          instr_texts = findall (qname ns_w ''instrText'') root;
          st1 = set_stat ''field_codes'' (SInt (length field_chars)) st
      in if field_chars \<noteq> [] \<or> instr_texts \<noteq> [] then
           let field_types = List.map_filter (field_type ev) instr_texts;
               unique_types = set_order ev field_types
           in add_issue INFO ''Field Codes''
                (lit ''Document contains '' @ str_nat (length field_chars) @ lit '' field code(s)'')
                (Some (lit ''Types found: ''
                         @ (if unique_types \<noteq> [] then join (lit '', '') unique_types
                            else lit ''Unknown'')))
                None
                (Some (lit ''Field codes may need to be updated or unlinked before processing.''))
                st1
         else st1)"

definition check_equations :: "elem \<Rightarrow> diag \<Rightarrow> diag" where
  "check_equations root st =
     (let equations = findall (qname ns_m ''oMath'') root;
          equation_paras = findall (qname ns_m ''oMathPara'') root;
          total_equations = length equations + length equation_paras;
          st1 = set_stat ''equations'' (SInt total_equations) st
      in if total_equations > 0 then
           add_issue INFO ''Equations''
             (lit ''Document contains '' @ str_nat total_equations @ lit '' equation(s)'')
             None None
             (Some (lit ''Equations (OMML) may cause processing issues. Consider converting to images if problems occur.''))
             st1
         else st1)"

definition check_hyperlinks :: "elem \<Rightarrow> diag \<Rightarrow> diag" where
  "check_hyperlinks root st =
     (let hyperlinks = findall (qname ns_w ''hyperlink'') root;
          st1 = set_stat ''hyperlinks'' (SInt (length hyperlinks)) st
      in if hyperlinks \<noteq> [] then
           let broken_count = length (filter (\<lambda>hl.
                   \<not> truthy (get hl (qname ns_r ''id'')) \<and> \<not> truthy (get hl (qname ns_w ''anchor'')))
                 hyperlinks)
           in if broken_count > 0 then
                add_issue WARNING ''Hyperlinks''
                  (lit ''Found '' @ str_nat broken_count @ lit '' hyperlink(s) without target reference'')
                  None None
                  (Some (lit ''Some hyperlinks may be broken. Check document relationships.''))
                  st1
              else
                add_issue INFO ''Hyperlinks''
                  (lit ''Document contains '' @ str_nat (length hyperlinks) @ lit '' hyperlink(s)'')
                  None None None st1
         else st1)"

text \<open>
  \<open>_check_namespaces\<close>. An ElementTree element has no \<open>nsmap\<close>, so the namespaces are
  read off the tags: for a tag that starts with \<open>{\<close>, the text up to the first \<open>}\<close>;
  \<open>str.index\<close> raises \<open>ValueError\<close> when there is none. The dictionary keeps the distinct
  namespaces in the order they are first met.
\<close>

fun collect_namespaces :: "elem list \<Rightarrow> pystr list \<Rightarrow> exn + pystr list" where
  "collect_namespaces [] namespaces = Inr namespaces"
| "collect_namespaces (e # es) namespaces =
     (if startswith (tag e) (lit ''{'') then
        (if 125 \<in> set (tag e) then
           let ns = takeWhile (\<lambda>c. c \<noteq> 125) (tl (tag e))
           in collect_namespaces es (if ns \<notin> set namespaces then namespaces @ [ns] else namespaces)
         else Inl (OtherError (lit ''substring not found'')))
      else collect_namespaces es namespaces)"

definition check_namespaces :: "elem \<Rightarrow> diag \<Rightarrow> exn option \<times> diag" where
  "check_namespaces root st =
     (case collect_namespaces (iter root) [] of
        Inl e \<Rightarrow> (Some e, st)
      | Inr namespaces \<Rightarrow>
          let known_ns = set (map snd NAMESPACES);
              custom_ns = filter (\<lambda>ns. ns \<noteq> [] \<and> ns \<notin> known_ns) namespaces
          in if custom_ns \<noteq> [] then
               (None, add_issue INFO ''Custom Namespaces''
                        (lit ''Document contains '' @ str_nat (length custom_ns)
                           @ lit '' custom namespace(s)'')
                        (Some (join (lit '', '') (take 3 custom_ns)
                                 @ (if length custom_ns > 3 then lit ''...'' else [])))
                        None
                        (Some (lit ''Custom namespaces may indicate third-party extensions that could cause issues.''))
                        st)
             else (None, st))"

section \<open>\<open>_analyze_document_xml\<close>\<close>

text \<open>
  Statements inside one \<open>try\<close> block run in sequence until one raises; the state changes
  made before the exception stay. A step returns the exception it raised, if any, and
  the state it left.
\<close>

type_synonym step = "diag \<Rightarrow> exn option \<times> diag"

definition returns :: "(diag \<Rightarrow> diag) \<Rightarrow> step" where
  "returns f st = (None, f st)"

definition run_check :: "env \<Rightarrow> check \<Rightarrow> step \<Rightarrow> step" where
  "run_check ev c body st = (case fault ev c of Some e \<Rightarrow> (Some e, st) | None \<Rightarrow> body st)"

fun seq :: "step list \<Rightarrow> step" where
  "seq [] st = (None, st)"
| "seq (f # fs) st = (case f st of (Some e, st') \<Rightarrow> (Some e, st') | (None, st') \<Rightarrow> seq fs st')"

definition element_checks :: "env \<Rightarrow> elem \<Rightarrow> step" where
  "element_checks ev root =
     seq [run_check ev TrackedChanges (returns (check_tracked_changes root)),
          run_check ev SmartTags (returns (check_smart_tags root)),
          run_check ev ContentControls (returns (check_content_controls root)),
          run_check ev FieldCodes (returns (check_field_codes ev root)),
          run_check ev Equations (returns (check_equations root)),
          run_check ev Hyperlinks (returns (check_hyperlinks root)),
          run_check ev Namespaces (check_namespaces root)]"

text \<open>The clauses \<open>except KeyError\<close> and \<open>except Exception as e\<close> that close the method.\<close>

definition analyze_handler :: "exn \<Rightarrow> diag \<Rightarrow> diag" where
  "analyze_handler e st =
     (case e of
        KeyError m \<Rightarrow>
          add_issue ERROR ''DOCX Structure'' (lit ''document.xml not found in archive'')
            None None None st
      | _ \<Rightarrow>
          add_issue ERROR ''Analysis'' (lit ''Error analyzing document.xml: '' @ exn_str e)
            None None None st)"

text \<open>
  The outcome of the \<open>try\<close> body once the element checks were started: the state they
  left, passed through the handler when one of them raised.
\<close>

fun after_checks :: "exn option \<times> diag \<Rightarrow> diag" where
  "after_checks (None, st) = st"
| "after_checks (Some e, st) = analyze_handler e st"

definition analyze_document_xml :: "env \<Rightarrow> diag \<Rightarrow> diag" where
  "analyze_document_xml ev st =
     (case zip_file st of
        None \<Rightarrow> st
      | Some zf \<Rightarrow>
          (case zip_read (archive zf) (lit ''word/document.xml'') of
             None \<Rightarrow> analyze_handler (KeyError (lit ''word/document.xml'')) st
           | Some content \<Rightarrow>
               let st1 = check_invalid_characters content (lit ''word/document.xml'') st
               in (case fromstring ev content of
                     Inl (ParseError m) \<Rightarrow>
                       add_issue ERROR ''XML Parsing''
                         (lit ''Failed to parse document.xml: '' @ m) None None
                         (Some (lit ''Document XML is malformed. Check for invalid characters or corrupted content.''))
                         st1
                   | Inl e \<Rightarrow> analyze_handler e st1
                   | Inr root \<Rightarrow> after_checks (element_checks ev root st1))))"

section \<open>\<open>_check_relationships\<close>\<close>

text \<open>
  \<open>os.path.normpath\<close> as \<open>posixpath\<close> defines it: empty and \<open>.\<close> components are dropped,
  \<open>..\<close> removes the component before it where there is one, and one or two leading
  slashes are kept.
\<close>

definition normpath_step :: "nat \<Rightarrow> pystr \<Rightarrow> pystr list \<Rightarrow> pystr list" where
  "normpath_step initial_slashes part new_comps =
     (if part = [] \<or> part = lit ''.'' then new_comps
      else if part \<noteq> lit ''..'' \<or> (initial_slashes = 0 \<and> new_comps = [])
                \<or> (new_comps \<noteq> [] \<and> last new_comps = lit ''..'')
           then new_comps @ [part]
      else if new_comps \<noteq> [] then butlast new_comps
      else new_comps)"

definition normpath :: "pystr \<Rightarrow> pystr" where
  "normpath path =
     (if path = [] then lit ''.''
      else
        let initial_slashes =
              (if startswith path (lit ''/'') then
                 (if startswith path (lit ''//'') \<and> \<not> startswith path (lit ''///'') then 2 else 1)
               else 0);
            comps = fold (normpath_step initial_slashes) (split 47 path) [];
            p = replicate initial_slashes 47 @ join (lit ''/'') comps
        in if p = [] then lit ''.'' else p)"

text \<open>\<open>target.lstrip('./')\<close> removes every leading character that is a dot or a slash.\<close>

definition lstrip_dot_slash :: "pystr \<Rightarrow> pystr" where
  "lstrip_dot_slash s = dropWhile (\<lambda>c. c = 46 \<or> c = 47) s"

text \<open>\<open>rel_type.split('/')[-1] if rel_type else 'unknown'\<close>.\<close>

definition rel_type_name :: "pystr \<Rightarrow> pystr" where
  "rel_type_name rel_type = (if rel_type \<noteq> [] then last (split 47 rel_type) else lit ''unknown'')"

text \<open>
  One turn of the loop over the relationship entries: the entry goes to \<open>external_refs\<close>,
  to \<open>broken_refs\<close> (with its target and type), or to neither.
\<close>

datatype rel_class = External pystr | Broken pystr pystr | Resolved

definition classify_rel :: "pystr list \<Rightarrow> elem \<Rightarrow> rel_class" where
  "classify_rel names rel =
     (let target = get_default rel (lit ''Target'') [];
          target_mode = get_default rel (lit ''TargetMode'') [];
          rel_type = get_default rel (lit ''Type'') []
      in if target_mode = lit ''External'' \<or> startswith target (lit ''http'') then External target
         else
           let target_path = (if startswith target (lit ''/'') then tl target
                              else lit ''word/'' @ target);
               target_path' = replace 92 (lit ''/'') (normpath target_path)
           in if target_path' \<notin> set names then
                (let alt_path = lstrip_dot_slash target
                 in if alt_path \<notin> set names then Broken target (rel_type_name rel_type)
                    else Resolved)
              else Resolved)"

definition broken_refs :: "rel_class list \<Rightarrow> (pystr \<times> pystr) list" where
  "broken_refs cs = List.map_filter (\<lambda>c. case c of Broken t ty \<Rightarrow> Some (t, ty) | _ \<Rightarrow> None) cs"

definition external_refs :: "rel_class list \<Rightarrow> pystr list" where
  "external_refs cs = List.map_filter (\<lambda>c. case c of External t \<Rightarrow> Some t | _ \<Rightarrow> None) cs"

definition rels_path :: pystr where
  "rels_path = lit ''word/_rels/document.xml.rels''"

definition rel_tag :: pystr where
  "rel_tag = qname (lit ''http://schemas.openxmlformats.org/package/2006/relationships'') ''Relationship''"

text \<open>The clauses \<open>except ET.ParseError\<close> and \<open>except Exception\<close> of the method.\<close>

definition relationships_handler :: "exn \<Rightarrow> diag \<Rightarrow> diag" where
  "relationships_handler e st =
     (case e of
        ParseError m \<Rightarrow>
          add_issue ERROR ''Relationships'' (lit ''Failed to parse relationships: '' @ m)
            None None None st
      | _ \<Rightarrow>
          add_issue WARNING ''Relationships'' (lit ''Error checking relationships: '' @ exn_str e)
            None None None st)"

definition check_relationships :: "env \<Rightarrow> diag \<Rightarrow> diag" where
  "check_relationships ev st =
     (case zip_file st of
        None \<Rightarrow> st
      | Some zf \<Rightarrow>
          if rels_path \<notin> set (namelist (archive zf)) then
            add_issue WARNING ''Relationships'' (lit ''Document relationships file not found'')
              (Some rels_path) None None st
          else
            (case zip_read (archive zf) rels_path of
               None \<Rightarrow> relationships_handler (KeyError rels_path) st
             | Some content \<Rightarrow>
                 (case fromstring ev content of
                    Inl e \<Rightarrow> relationships_handler e st
                  | Inr root \<Rightarrow>
                      let relationships = findall rel_tag root;
                          st1 = set_stat ''relationships'' (SInt (length relationships)) st;
                          classes = map (classify_rel (namelist (archive zf))) relationships;
                          broken = broken_refs classes;
                          external = external_refs classes;
                          st2 = (if broken \<noteq> [] then
                                   add_issue WARNING ''Broken References''
                                     (lit ''Found '' @ str_nat (length broken)
                                        @ lit '' broken internal reference(s)'')
                                     (Some (lit ''Types: ''
                                              @ join (lit '', '') (set_order ev (map snd broken))))
                                     None
                                     (Some (lit ''Some referenced files are missing. Document may have been edited externally.''))
                                     st1
                                 else st1)
                      in if external \<noteq> [] then
                           add_issue INFO ''External References''
                             (lit ''Document contains '' @ str_nat (length external)
                                @ lit '' external reference(s) (URLs)'')
                             None None None
                             (set_stat ''external_refs'' (SInt (length external)) st2)
                         else st2)))"

section \<open>\<open>_check_embedded_objects\<close>\<close>

definition check_embedded_objects :: "diag \<Rightarrow> diag" where
  "check_embedded_objects st =
     (case zip_file st of
        None \<Rightarrow> st
      | Some zf \<Rightarrow>
          let file_list = namelist (archive zf);
              embeddings = filter (\<lambda>f. startswith f (lit ''word/embeddings/'')) file_list;
              st1 = set_stat ''embedded_objects'' (SInt (length embeddings)) st;
              st2 = (if embeddings \<noteq> [] then
                       let ole_objects = filter (\<lambda>f. endswith f (lit ''.bin'')) embeddings;
                           other_objects = filter (\<lambda>f. \<not> endswith f (lit ''.bin'')) embeddings
                       in add_issue WARNING ''Embedded Objects''
                            (lit ''Document contains '' @ str_nat (length embeddings)
                               @ lit '' embedded object(s)'')
                            (Some (lit ''OLE objects: '' @ str_nat (length ole_objects)
                                     @ lit '', Other: '' @ str_nat (length other_objects)))
                            None
                            (Some (lit ''Embedded OLE objects (Excel, PDF, etc.) may cause processing issues. Consider removing or converting them.''))
                            st1
                     else st1);
              media = filter (\<lambda>f. startswith f (lit ''word/media/'')) file_list;
              st3 = set_stat ''media_files'' (SInt (length media)) st2
          in if media \<noteq> [] then
               add_issue INFO ''Media Files''
                 (lit ''Document contains '' @ str_nat (length media)
                    @ lit '' media file(s) (images, etc.)'')
                 None None None st3
             else st3)"

section \<open>\<open>run_all_checks\<close>\<close>

text \<open>\<open>self.zip_file.close()\<close>.\<close>

definition close_zip :: "diag \<Rightarrow> diag" where
  "close_zip st =
     (case zip_file st of
        None \<Rightarrow> st
      | Some zf \<Rightarrow> st\<lparr>zip_file := Some (zf\<lparr>closed := True\<rparr>)\<rparr>)"

text \<open>
  The method returns whether no issue of severity \<open>ERROR\<close> was recorded, and leaves the
  object in the state the report is read from. The line it prints first is left out.
\<close>

definition run_all_checks :: "env \<Rightarrow> diag \<Rightarrow> bool \<times> diag" where
  "run_all_checks ev st =
     (case check_file_exists ev st of
        (False, st1) \<Rightarrow> (False, st1)
      | (True, st1) \<Rightarrow>
          (case check_zip_structure ev st1 of
             (False, st2) \<Rightarrow> (False, st2)
           | (True, st2) \<Rightarrow>
               let st3 = check_required_files st2;
                   st4 = analyze_document_xml ev st3;
                   st5 = check_relationships ev st4;
                   st6 = check_embedded_objects st5;
                   st7 = close_zip st6
               in (count_severity ERROR (issues st7) = 0, st7)))"

text \<open>One analysis run: a fresh object, the checks, the summary.\<close>

definition analyze :: "env \<Rightarrow> pystr \<Rightarrow> bool \<Rightarrow> summary" where
  "analyze ev path v = get_summary (snd (run_all_checks ev (init path v)))"

section \<open>Notions the properties are stated with\<close>

text \<open>
  The number of elements with tag \<open>t\<close> in the tree of \<open>e\<close> (\<open>e\<close> included), and the number
  of such elements below the root of a document: the root element of a main document
  part is \<open>w:document\<close>, and the revision elements are its descendants.
\<close>

fun count_tag :: "pystr \<Rightarrow> elem \<Rightarrow> nat" where
  "count_tag t (Elem tg a x cs) = (if tg = t then 1 else 0) + sum_list (map (count_tag t) cs)"

definition count_below :: "pystr \<Rightarrow> elem \<Rightarrow> nat" where
  "count_below t root = sum_list (map (count_tag t) (children root))"

text \<open>The issues of category \<open>Tracked Changes\<close> that \<open>_check_tracked_changes\<close> adds.\<close>

definition tracked_issues :: "elem \<Rightarrow> diag \<Rightarrow> issue list" where
  "tracked_issues root st =
     filter (\<lambda>i. category i = ''Tracked Changes'')
       (drop (length (issues st)) (issues (check_tracked_changes root st)))"

text \<open>A document with one insertion and one deletion.\<close>

definition doc_two_revisions :: elem where
  "doc_two_revisions =
     Elem (qname ns_w ''document'') [] None
       [Elem (qname ns_w ''ins'') [] None [], Elem (qname ns_w ''del'') [] None []]"

section \<open>Example inputs\<close>

text \<open>
  Concrete packages for the closed statements below. The bytes of a part are given as
  ASCII text; \<open>parse_table\<close> stands for the XML parser on the documents listed in its
  table and raises \<open>ParseError\<close> on everything else; \<open>ascii_upper\<close> is \<open>str.upper\<close> on
  ASCII text.
\<close>

definition ascii_bytes :: "string \<Rightarrow> byte list" where
  "ascii_bytes s = map of_char s"

definition ascii_upper :: "pystr \<Rightarrow> pystr" where
  "ascii_upper s = map (\<lambda>c. if 97 \<le> c \<and> c \<le> 122 then c - 32 else c) s"

definition parse_table :: "(byte list \<times> elem) list \<Rightarrow> byte list \<Rightarrow> exn + elem" where
  "parse_table table content =
     (case map_of table content of
        Some root \<Rightarrow> Inr root
      | None \<Rightarrow> Inl (ParseError (lit ''syntax error: line 1, column 0'')))"

definition example_env :: "(exn + archive) \<Rightarrow> (byte list \<times> elem) list \<Rightarrow> env" where
  "example_env z table =
     \<lparr>path_exists = True, path_isfile = True, path_getsize = 1000, zip_open = z,
      fromstring = parse_table table, str_upper = ascii_upper, set_order = remdups,
      fault = (\<lambda>c. None)\<rparr>"

definition doc_bytes :: "byte list" where
  "doc_bytes = ascii_bytes
     ''<w:document xmlns:w='http://schemas.openxmlformats.org/wordprocessingml/2006/main'><w:ins/><w:del/></w:document>''"

definition minimal_entries :: "(pystr \<times> byte list) list" where
  "minimal_entries =
     [(lit ''[Content_Types].xml'', ascii_bytes ''<Types/>''),
      (lit ''_rels/.rels'', ascii_bytes ''<Relationships/>''),
      (lit ''word/document.xml'', doc_bytes)]"

text \<open>An archive that opens, and whose integrity test names a corrupted member.\<close>

definition archive_corrupt_member :: archive where
  "archive_corrupt_member =
     \<lparr>testzip = Inr (Some (lit ''word/document.xml'')), entries = minimal_entries\<rparr>"

text \<open>
  An archive with a corrupted member whose name is the empty string: \<open>testzip()\<close> returns
  that name, \<open>''\<close>.
\<close>

definition archive_corrupt_unnamed :: archive where
  "archive_corrupt_unnamed =
     \<lparr>testzip = Inr (Some []), entries = ([], ascii_bytes ''payload'') # minimal_entries\<rparr>"

text \<open>An intact archive that holds the main document part and nothing else.\<close>

definition archive_document_only :: archive where
  "archive_document_only =
     \<lparr>testzip = Inr None, entries = [(lit ''word/document.xml'', doc_bytes)]\<rparr>"

text \<open>
  The element checks that run on \<open>doc_two_revisions\<close> when none raises; the namespace
  check finds only the WordprocessingML namespace there and adds nothing.
\<close>

definition doc_checks :: "env \<Rightarrow> diag \<Rightarrow> diag" where
  "doc_checks ev st =
     check_hyperlinks doc_two_revisions (check_equations doc_two_revisions
       (check_field_codes ev doc_two_revisions
         (check_content_controls doc_two_revisions (check_smart_tags doc_two_revisions
           (check_tracked_changes doc_two_revisions st)))))"

text \<open>
  A main document part in ISO-8859-1, as its XML declaration says: the byte \<open>0xE9\<close>
  (e acute) after the deletion element is not valid UTF-8, and the XML parser reads
  the part to the same tree as \<open>doc_two_revisions\<close>. And a part that is the single byte
  \<open>0xFF\<close>, which is neither UTF-8 nor XML.
\<close>

definition latin1_doc_bytes :: "byte list" where
  "latin1_doc_bytes =
     ascii_bytes ''<?xml version='1.0' encoding='ISO-8859-1'?><w:document xmlns:w='http://schemas.openxmlformats.org/wordprocessingml/2006/main'><w:ins/><w:del/>''
     @ [0xE9] @ ascii_bytes ''</w:document>''"

text \<open>
  The diagnostic object as the loader leaves it for \<open>a.docx\<close>, an intact archive with
  the members \<open>es\<close> (the statistics of the loader left aside).
\<close>

definition opened :: "(pystr \<times> byte list) list \<Rightarrow> diag" where
  "opened es =
     (init (lit ''a.docx'') False)
       \<lparr>zip_file := Some \<lparr>archive = \<lparr>testzip = Inr None, entries = es\<rparr>, closed = False\<rparr>\<rparr>"

section \<open>Notions for the isolation of the element checks\<close>

text \<open>
  The order in which \<open>_analyze_document_xml\<close> calls the element checks, the checks called
  before a given one, and each check as a function on the state (for \<open>_check_namespaces\<close>,
  the state it leaves).
\<close>

definition check_order :: "check list" where
  "check_order =
     [TrackedChanges, SmartTags, ContentControls, FieldCodes, Equations, Hyperlinks, Namespaces]"

definition checks_before :: "check \<Rightarrow> check list" where
  "checks_before c = takeWhile (\<lambda>c'. c' \<noteq> c) check_order"

fun check_effect :: "env \<Rightarrow> elem \<Rightarrow> check \<Rightarrow> diag \<Rightarrow> diag" where
  "check_effect ev root TrackedChanges = check_tracked_changes root"
| "check_effect ev root SmartTags = check_smart_tags root"
| "check_effect ev root ContentControls = check_content_controls root"
| "check_effect ev root FieldCodes = check_field_codes ev root"
| "check_effect ev root Equations = check_equations root"
| "check_effect ev root Hyperlinks = check_hyperlinks root"
| "check_effect ev root Namespaces = (\<lambda>st. snd (check_namespaces root st))"

text \<open>The category under which the handler of \<open>_analyze_document_xml\<close> reports an exception.\<close>

definition handler_category :: "exn \<Rightarrow> string" where
  "handler_category e = (case e of KeyError m \<Rightarrow> ''DOCX Structure'' | _ \<Rightarrow> ''Analysis'')"

text \<open>
  The example environment on the package that holds only the main document part, with an
  exception arising in \<open>_check_smart_tags\<close>.
\<close>

definition smart_tags_fault_env :: env where
  "smart_tags_fault_env =
     (example_env (Inr archive_document_only) [(doc_bytes, doc_two_revisions)])
       \<lparr>fault := (\<lambda>c. if c = SmartTags then Some (OtherError (lit ''out of memory'')) else None)\<rparr>"

section \<open>Notions for the relationship check\<close>

text \<open>The three attributes the loop reads from a relationship entry, with their defaults.\<close>

definition rel_target :: "elem \<Rightarrow> pystr" where
  "rel_target rel = get_default rel (lit ''Target'') []"

definition rel_target_mode :: "elem \<Rightarrow> pystr" where
  "rel_target_mode rel = get_default rel (lit ''TargetMode'') []"

definition rel_type :: "elem \<Rightarrow> pystr" where
  "rel_type rel = get_default rel (lit ''Type'') []"

text \<open>
  An entry is external when its target mode is \<open>External\<close> or its target starts with the
  four characters \<open>http\<close>. The target of any other entry is resolved to a part name: without
  its leading slash when it has one, below \<open>word/\<close> otherwise, and normalized. Such an
  entry is broken when neither the resolved name nor the target without its leading dots
  and slashes is a part of the package.
\<close>

definition is_external :: "elem \<Rightarrow> bool" where
  "is_external rel =
     (rel_target_mode rel = lit ''External'' \<or> startswith (rel_target rel) (lit ''http''))"

definition resolve_target :: "pystr \<Rightarrow> pystr" where
  "resolve_target target =
     replace 92 (lit ''/'')
       (normpath (if startswith target (lit ''/'') then tl target else lit ''word/'' @ target))"

definition is_broken :: "pystr list \<Rightarrow> elem \<Rightarrow> bool" where
  "is_broken names rel =
     (\<not> is_external rel \<and> resolve_target (rel_target rel) \<notin> set names
      \<and> lstrip_dot_slash (rel_target rel) \<notin> set names)"

text \<open>
  The words of the claim: a target that starts with a URL scheme (a letter, then letters,
  digits, \<open>+\<close>, \<open>-\<close> or \<open>.\<close>, then a colon), and a target with one leading \<open>./\<close> stripped.
\<close>

definition is_alpha :: "nat \<Rightarrow> bool" where
  "is_alpha c = ((65 \<le> c \<and> c \<le> 90) \<or> (97 \<le> c \<and> c \<le> 122))"

definition starts_with_url_scheme :: "pystr \<Rightarrow> bool" where
  "starts_with_url_scheme t =
     (let s = takeWhile (\<lambda>c. c \<noteq> 58) t
      in 58 \<in> set t \<and> s \<noteq> [] \<and> is_alpha (hd s)
         \<and> list_all (\<lambda>c. is_alpha c \<or> (48 \<le> c \<and> c \<le> 57) \<or> c = 43 \<or> c = 45 \<or> c = 46) s)"

definition strip_dot_slash_once :: "pystr \<Rightarrow> pystr" where
  "strip_dot_slash_once t = (if startswith t (lit ''./'') then drop 2 t else t)"

text \<open>
  Two relationship entries without a target mode: one whose target is an \<open>ftp\<close> URL, and
  one whose relative target leaves the package root; and the parts of a package that
  holds \<open>customXml/item1.xml\<close>.
\<close>

definition rel_ftp :: elem where
  "rel_ftp =
     Elem rel_tag
       [(lit ''Id'', lit ''rId1''),
        (lit ''Type'', lit ''http://schemas.openxmlformats.org/officeDocument/2006/relationships/hyperlink''),
        (lit ''Target'', lit ''ftp://example.com/a.bin'')]
       None []"

definition rel_escaping :: elem where
  "rel_escaping =
     Elem rel_tag
       [(lit ''Id'', lit ''rId2''),
        (lit ''Type'', lit ''http://schemas.openxmlformats.org/officeDocument/2006/relationships/customXml''),
        (lit ''Target'', lit ''../../customXml/item1.xml'')]
       None []"

definition rels_names :: "pystr list" where
  "rels_names =
     [lit ''word/document.xml'', lit ''word/_rels/document.xml.rels'', lit ''customXml/item1.xml'']"

text \<open>
  The relationships part that holds the two entries, as bytes and as the tree the parser
  gives for them, and a package with the main document part, that part and
  \<open>customXml/item1.xml\<close>.
\<close>

definition rels_root :: elem where
  "rels_root =
     Elem (qname (lit ''http://schemas.openxmlformats.org/package/2006/relationships'') ''Relationships'')
       [] None [rel_ftp, rel_escaping]"

definition rels_bytes :: "byte list" where
  "rels_bytes = ascii_bytes
     ''<Relationships xmlns='http://schemas.openxmlformats.org/package/2006/relationships'><Relationship Id='rId1' Type='http://schemas.openxmlformats.org/officeDocument/2006/relationships/hyperlink' Target='ftp://example.com/a.bin'/><Relationship Id='rId2' Type='http://schemas.openxmlformats.org/officeDocument/2006/relationships/customXml' Target='../../customXml/item1.xml'/></Relationships>''"

definition rels_entries :: "(pystr \<times> byte list) list" where
  "rels_entries =
     [(lit ''word/document.xml'', doc_bytes),
      (lit ''word/_rels/document.xml.rels'', rels_bytes),
      (lit ''customXml/item1.xml'', ascii_bytes ''<item/>'')]"

definition rels_env :: env where
  "rels_env = example_env (Inr \<lparr>testzip = Inr None, entries = rels_entries\<rparr>) [(rels_bytes, rels_root)]"

section \<open>Notions for the pipeline properties\<close>

text \<open>Severity and category of an issue, the part of it the properties below speak of.\<close>

definition sev_cat :: "issue \<Rightarrow> severity \<times> string" where
  "sev_cat i = (severity i, category i)"

text \<open>
  The package loader fails: the path does not exist, is not a regular file, the file is
  empty, the archive does not open, or the integrity test raises or names a corrupted
  member.
\<close>

definition loader_fails :: "env \<Rightarrow> bool" where
  "loader_fails ev =
     (\<not> path_exists ev \<or> \<not> path_isfile ev \<or> path_getsize ev = 0
      \<or> (case zip_open ev of
            Inl e \<Rightarrow> True
          | Inr ar \<Rightarrow>
              (case testzip ar of
                 Inl e \<Rightarrow> True
               | Inr None \<Rightarrow> False
               | Inr (Some name) \<Rightarrow> name \<noteq> [])))"

text \<open>
  The statistics keys and the issue categories of the stages after the loader
  (\<open>_check_required_files\<close>, \<open>_analyze_document_xml\<close>, \<open>_check_relationships\<close>,
  \<open>_check_embedded_objects\<close>).
\<close>

definition later_stage_keys :: "string list" where
  "later_stage_keys =
     [''tracked_changes'', ''smart_tags'', ''content_controls'', ''field_codes'', ''equations'',
      ''hyperlinks'', ''relationships'', ''external_refs'', ''embedded_objects'', ''media_files'']"

definition later_stage_categories :: "string list" where
  "later_stage_categories =
     [''DOCX Structure'', ''Encoding'', ''Invalid Characters'', ''Invalid Character Detail'',
      ''XML Parsing'', ''Analysis'', ''Tracked Changes'', ''Nested Revisions'', ''Smart Tags'',
      ''Content Controls'', ''Field Codes'', ''Equations'', ''Hyperlinks'', ''Custom Namespaces'',
      ''Relationships'', ''Broken References'', ''External References'', ''Embedded Objects'',
      ''Media Files'']"

section \<open>Notions for the comparison of verbose and quiet runs\<close>

text \<open>
  The issues that only a verbose run records, the state of a run without them and with
  the verbose flag off, and what it means for a stage to treat both runs alike: it
  commutes with \<open>quiet\<close> and adds no detail issue.
\<close>

definition is_detail :: "issue \<Rightarrow> bool" where
  "is_detail i = (category i = ''Invalid Character Detail'')"

definition details :: "diag \<Rightarrow> issue list" where
  "details st = filter is_detail (issues st)"

definition quiet :: "diag \<Rightarrow> diag" where
  "quiet st = st\<lparr>verbose := False, issues := filter (\<lambda>i. \<not> is_detail i) (issues st)\<rparr>"

definition silent :: "(diag \<Rightarrow> diag) \<Rightarrow> bool" where
  "silent f = (\<forall>st. f (quiet st) = quiet (f st) \<and> details (f st) = details st)"

definition silent_step :: "(diag \<Rightarrow> 'r \<times> diag) \<Rightarrow> bool" where
  "silent_step f =
     (\<forall>st. f (quiet st) = apsnd quiet (f st) \<and> details (snd (f st)) = details st)"

section \<open>Notions for the comparison of two runs on the same input\<close>

text \<open>
  The two issues whose location lists type names in the order in which the interpreter
  iterates over a set, a state without these two locations, and what it means for a
  stage of one run and the same stage of another run to agree up to them: from states
  that agree up to these locations they lead to states that do.
\<close>

definition order_free_issue :: "issue \<Rightarrow> issue" where
  "order_free_issue i =
     (if category i = ''Field Codes'' \<or> category i = ''Broken References''
      then i\<lparr>location := None\<rparr> else i)"

definition order_free :: "diag \<Rightarrow> diag" where
  "order_free st = st\<lparr>issues := map order_free_issue (issues st)\<rparr>"

definition agree :: "(diag \<Rightarrow> diag) \<Rightarrow> (diag \<Rightarrow> diag) \<Rightarrow> bool" where
  "agree f g = (\<forall>a b. order_free a = order_free b \<longrightarrow> order_free (f a) = order_free (g b))"


text \<open>
  A document with two field instructions, a table of contents and a page number, its
  bytes, the package that holds only this part, and the example environment on that
  package with a given iteration order for sets.
\<close>

definition doc_two_fields :: elem where
  "doc_two_fields =
     Elem (qname ns_w ''document'') [] None
       [Elem (qname ns_w ''instrText'') [] (Some (lit '' TOC '')) [],
        Elem (qname ns_w ''instrText'') [] (Some (lit '' PAGE '')) []]"

definition fields_bytes :: "byte list" where
  "fields_bytes = ascii_bytes
     ''<w:document xmlns:w='http://schemas.openxmlformats.org/wordprocessingml/2006/main'><w:instrText> TOC </w:instrText><w:instrText> PAGE </w:instrText></w:document>''"

definition archive_fields :: archive where
  "archive_fields =
     \<lparr>testzip = Inr None, entries = [(lit ''word/document.xml'', fields_bytes)]\<rparr>"

definition fields_env :: "(pystr list \<Rightarrow> pystr list) \<Rightarrow> env" where
  "fields_env so =
     (example_env (Inr archive_fields) [(fields_bytes, doc_two_fields)])\<lparr>set_order := so\<rparr>"


text \<open>
  A main document part that holds the control character \<open>U+0001\<close>, the package that holds
  only this part, and the example environment on that package, where the XML parser
  rejects the part at the control character.
\<close>

definition ctrl_text :: string where
  "ctrl_text = ''<a>'' @ [CHR 0x01] @ ''</a>''"

definition ctrl_bytes :: "byte list" where
  "ctrl_bytes = ascii_bytes ctrl_text"

definition archive_ctrl :: archive where
  "archive_ctrl = \<lparr>testzip = Inr None, entries = [(lit ''word/document.xml'', ctrl_bytes)]\<rparr>"

definition ctrl_env :: env where
  "ctrl_env =
     (example_env (Inr archive_ctrl) [])
       \<lparr>fromstring := (\<lambda>content.
          Inl (ParseError (lit ''not well-formed (invalid token): line 1, column 3'')))\<rparr>"

section \<open>Report status\<close>

lemma count_severity_pos:
  "(0 < count_severity sev is) = (\<exists>i \<in> set is. severity i = sev)"
  by (induction "is") (auto simp: count_severity_def)

text \<open>
  C1. The status of the report is \<open>FAIL\<close> exactly when some recorded issue has severity
  \<open>ERROR\<close>, \<open>WARN\<close> exactly when none has severity \<open>ERROR\<close> and some has severity \<open>WARNING\<close>,
  and \<open>PASS\<close> otherwise. \<open>get_summary\<close> reads nothing but the issue list for it: two
  diagnostic objects with the same issues have the same status.
\<close>

theorem status_derived_from_issues:
  "(status (get_summary st) = ''FAIL'') = (\<exists>i \<in> set (issues st). severity i = ERROR)
   \<and> (status (get_summary st) = ''WARN'') =
       ((\<forall>i \<in> set (issues st). severity i \<noteq> ERROR) \<and> (\<exists>i \<in> set (issues st). severity i = WARNING))
   \<and> (status (get_summary st) = ''PASS'') =
       ((\<forall>i \<in> set (issues st). severity i \<noteq> ERROR) \<and> (\<forall>i \<in> set (issues st). severity i \<noteq> WARNING))
   \<and> status (get_summary st) \<in> {''FAIL'', ''WARN'', ''PASS''}
   \<and> (\<forall>st'. issues st' = issues st \<longrightarrow> status (get_summary st') = status (get_summary st))"
  using count_severity_pos [of ERROR "issues st"] count_severity_pos [of WARNING "issues st"]
  by (auto simp: get_summary_def Let_def)

theorem status_derived_from_issues_witness:
  "status (get_summary (add_issue ERROR ''Encoding'' (lit ''bad'') None None None
      (init (lit ''a.docx'') False))) = ''FAIL''"
  using status_derived_from_issues
    [of "add_issue ERROR ''Encoding'' (lit ''bad'') None None None (init (lit ''a.docx'') False)"]
  by (simp add: add_issue_def init_def)

section \<open>Tracked changes\<close>

lemma length_filter_concat:
  "length (filter P (concat xss)) = sum_list (map (\<lambda>xs. length (filter P xs)) xss)"
  by (induction xss) auto

lemma length_filter_iter:
  "length (filter (\<lambda>e. tag e = t) (iter e)) = count_tag t e"
proof (induction e)
  case (Elem tg a x cs)
  have "sum_list (map (\<lambda>c. length (filter (\<lambda>e. tag e = t) (iter c))) cs)
        = sum_list (map (count_tag t) cs)"
    using Elem.IH by (intro arg_cong [where f = sum_list] map_cong) auto
  then show ?case
    by (simp add: length_filter_concat o_def)
qed

lemma length_findall: "length (findall t root) = count_below t root"
proof -
  have "sum_list (map (\<lambda>c. length (filter (\<lambda>e. tag e = t) (iter c))) (children root))
        = sum_list (map (count_tag t) (children root))"
    by (intro arg_cong [where f = sum_list] map_cong) (auto simp: length_filter_iter)
  then show ?thesis
    by (simp add: findall_def count_below_def length_filter_concat o_def)
qed

text \<open>
  C6. For a parsed document with \<open>N\<close> insertion elements, \<open>M\<close> deletion elements and no
  paragraph- or run-property-change element below its root, \<open>_check_tracked_changes\<close>
  stores the total \<open>N + M\<close> in the \<open>tracked_changes\<close> statistic and keeps the issues
  recorded before. It adds no \<open>Tracked Changes\<close> issue when \<open>N + M = 0\<close> and exactly one
  otherwise, whose severity is \<open>WARNING\<close> if and only if \<open>N + M < 100\<close>, and \<open>ERROR\<close> if not.
\<close>

theorem tracked_changes_total_and_severity:
  assumes "count_below (qname ns_w ''ins'') root = N"
    and "count_below (qname ns_w ''del'') root = M"
    and "count_below (qname ns_w ''pPrChange'') root = 0"
    and "count_below (qname ns_w ''rPrChange'') root = 0"
  shows "stats (check_tracked_changes root st) ''tracked_changes'' =
           Some (SDict [(''insertions'', N), (''deletions'', M), (''paragraph_changes'', 0),
                        (''run_changes'', 0), (''total'', N + M)])
         \<and> take (length (issues st)) (issues (check_tracked_changes root st)) = issues st
         \<and> (if N + M = 0 then tracked_issues root st = []
            else \<exists>i. tracked_issues root st = [i]
                   \<and> (severity i = WARNING) = (N + M < 100)
                   \<and> (severity i = ERROR) = (\<not> N + M < 100))"
proof -
  have ins: "length (findall (qname ns_w ''ins'') root) = N"
    and del: "length (findall (qname ns_w ''del'') root) = M"
    and ppr: "length (findall (qname ns_w ''pPrChange'') root) = 0"
    and rpr: "length (findall (qname ns_w ''rPrChange'') root) = 0"
    using assms by (simp_all add: length_findall)
  show ?thesis
    unfolding check_tracked_changes_def tracked_issues_def Let_def ins del ppr rpr
    by (simp add: set_stat_def add_issue_def)
qed

lemma count_below_doc_two_revisions:
  "count_below (qname ns_w ''ins'') doc_two_revisions = 1"
  "count_below (qname ns_w ''del'') doc_two_revisions = 1"
  "count_below (qname ns_w ''pPrChange'') doc_two_revisions = 0"
  "count_below (qname ns_w ''rPrChange'') doc_two_revisions = 0"
  by (simp_all add: count_below_def doc_two_revisions_def qname_def lit_def)

theorem tracked_changes_total_and_severity_witness:
  "stats (check_tracked_changes doc_two_revisions (init (lit ''a.docx'') False)) ''tracked_changes'' =
     Some (SDict [(''insertions'', 1), (''deletions'', 1), (''paragraph_changes'', 0),
                  (''run_changes'', 0), (''total'', 2)])
   \<and> (\<exists>i. tracked_issues doc_two_revisions (init (lit ''a.docx'') False) = [i]
          \<and> severity i = WARNING)"
  using tracked_changes_total_and_severity
    [OF count_below_doc_two_revisions, of "init (lit ''a.docx'') False"]
  by auto

section \<open>Basic facts about the model\<close>

lemma lit_eq_iff [simp]: "(lit a = lit b) = (a = b)"
  by (simp add: lit_def inj_map_eq_map [OF inj_of_char])

lemma lit_Nil_iff [simp]: "(lit a = []) = (a = [])" "([] = lit a) = (a = [])"
  by (auto simp: lit_def)

lemma startswith_lit [simp]: "startswith (lit a) (lit b) = (take (length b) a = b)"
  by (simp add: startswith_def lit_def take_map inj_map_eq_map [OF inj_of_char])

lemma endswith_lit [simp]:
  "endswith (lit a) (lit b) = (length b \<le> length a \<and> drop (length a - length b) a = b)"
  by (simp add: endswith_def lit_def drop_map inj_map_eq_map [OF inj_of_char])

lemma brace_free:
  "125 \<notin> set ns_w" "125 \<notin> set ns_m" "125 \<notin> set ns_r"
  by (simp_all add: ns_w_def ns_m_def ns_r_def lit_def)

lemma takeWhile_brace:
  "125 \<notin> set ns \<Longrightarrow> takeWhile (\<lambda>c. c \<noteq> 125) (ns @ 125 # rest) = ns"
  by (induction ns) auto

lemma qname_ns:
  assumes "125 \<notin> set ns"
  shows "startswith (qname ns a) (lit ''{'')"
    and "125 \<in> set (qname ns a)"
    and "takeWhile (\<lambda>c. c \<noteq> 125) (tl (qname ns a)) = ns"
  using assms by (simp_all add: qname_def lit_def startswith_def takeWhile_brace)

lemma qname_inj:
  assumes "125 \<notin> set ns" "125 \<notin> set ns'"
  shows "(qname ns a = qname ns' b) = (ns = ns' \<and> a = b)"
proof
  assume e: "qname ns a = qname ns' b"
  have "takeWhile (\<lambda>c. c \<noteq> 125) (tl (qname ns a))
        = takeWhile (\<lambda>c. c \<noteq> 125) (tl (qname ns' b))"
    using e by simp
  then have "ns = ns'"
    using assms by (simp add: qname_ns)
  with e show "ns = ns' \<and> a = b"
    by (simp add: qname_def)
qed simp

lemma qname_eq_iff [simp]: "(qname ns a = qname ns b) = (a = b)"
  by (simp add: qname_def)

lemma ns_distinct: "ns_w \<noteq> ns_m" "ns_m \<noteq> ns_w"
  by (simp_all add: ns_w_def ns_m_def)

lemma findall_leaf [simp]: "findall t (Elem tg a x []) = []"
  by (simp add: findall_def)

lemma sev_cat_simp [simp]:
  "sev_cat \<lparr>severity = s, category = c, message = m, location = l, context' = x,
            suggestion = g\<rparr> = (s, c)"
  by (simp add: sev_cat_def)

lemma init_simps [simp]:
  "issues (init p v) = []" "stats (init p v) = Map.empty" "zip_file (init p v) = None"
  "verbose (init p v) = v" "filepath (init p v) = p"
  by (simp_all add: init_def)

lemma add_issue_simps [simp]:
  "issues (add_issue sev cat msg loc ctx sug st) =
     issues st @ [\<lparr>severity = sev, category = cat, message = msg, location = loc,
                   context' = ctx, suggestion = sug\<rparr>]"
  "stats (add_issue sev cat msg loc ctx sug st) = stats st"
  "zip_file (add_issue sev cat msg loc ctx sug st) = zip_file st"
  "verbose (add_issue sev cat msg loc ctx sug st) = verbose st"
  "filepath (add_issue sev cat msg loc ctx sug st) = filepath st"
  by (simp_all add: add_issue_def)

lemma set_stat_simps [simp]:
  "issues (set_stat k v st) = issues st"
  "stats (set_stat k v st) = (stats st)(k \<mapsto> v)"
  "zip_file (set_stat k v st) = zip_file st"
  "verbose (set_stat k v st) = verbose st"
  "filepath (set_stat k v st) = filepath st"
  by (simp_all add: set_stat_def)

lemma close_zip_simps [simp]:
  "issues (close_zip st) = issues st"
  "stats (close_zip st) = stats st"
  "verbose (close_zip st) = verbose st"
  "filepath (close_zip st) = filepath st"
  "zip_file (close_zip st) = map_option (\<lambda>zf. zf\<lparr>closed := True\<rparr>) (zip_file st)"
  by (simp_all add: close_zip_def split: option.splits)

lemma fold_add_issue:
  "fold (\<lambda>x s. add_issue (sv x) (ct x) (ms x) (lc x) (cx x) (sg x) s) xs st =
     st\<lparr>issues := issues st @
          map (\<lambda>x. \<lparr>severity = sv x, category = ct x, message = ms x, location = lc x,
                     context' = cx x, suggestion = sg x\<rparr>) xs\<rparr>"
  by (induction xs arbitrary: st) (simp_all add: add_issue_def)

lemma fold_cond_add_issue:
  "fold (\<lambda>x s. if P x then add_issue (sv x) (ct x) (ms x) (lc x) (cx x) (sg x) s else s) xs st =
     st\<lparr>issues := issues st @
          map (\<lambda>x. \<lparr>severity = sv x, category = ct x, message = ms x, location = lc x,
                     context' = cx x, suggestion = sg x\<rparr>) (filter P xs)\<rparr>"
  by (induction xs arbitrary: st) (simp_all add: add_issue_def)

section \<open>What each stage leaves untouched\<close>

lemma zip_error_simps [simp]:
  "map sev_cat (issues (zip_error e st)) = map sev_cat (issues st) @ [(ERROR, ''ZIP Structure'')]"
  "stats (zip_error e st) = stats st"
  "zip_file (zip_error e st) = zip_file st"
  by (simp_all add: zip_error_def split: exn.splits)

lemma check_required_files_frame [simp]:
  "zip_file (check_required_files st) = zip_file st"
  "stats (check_required_files st) = stats st"
  "verbose (check_required_files st) = verbose st"
  "filepath (check_required_files st) = filepath st"
  by (simp_all add: check_required_files_def Let_def fold_cond_add_issue case_prod_unfold
        split: option.splits)

lemma check_invalid_characters_frame [simp]:
  "zip_file (check_invalid_characters content fn st) = zip_file st"
  "stats (check_invalid_characters content fn st) = stats st"
  "verbose (check_invalid_characters content fn st) = verbose st"
  "filepath (check_invalid_characters content fn st) = filepath st"
  by (simp_all add: check_invalid_characters_def Let_def fold_add_issue split: sum.splits)

lemma check_tracked_changes_frame [simp]:
  "zip_file (check_tracked_changes root st) = zip_file st"
  "verbose (check_tracked_changes root st) = verbose st"
  "filepath (check_tracked_changes root st) = filepath st"
  by (simp_all add: check_tracked_changes_def Let_def)

lemma check_smart_tags_frame [simp]:
  "zip_file (check_smart_tags root st) = zip_file st"
  "verbose (check_smart_tags root st) = verbose st"
  "filepath (check_smart_tags root st) = filepath st"
  by (simp_all add: check_smart_tags_def Let_def)

lemma check_content_controls_frame [simp]:
  "zip_file (check_content_controls root st) = zip_file st"
  "verbose (check_content_controls root st) = verbose st"
  "filepath (check_content_controls root st) = filepath st"
  by (simp_all add: check_content_controls_def Let_def)

lemma check_field_codes_frame [simp]:
  "zip_file (check_field_codes ev root st) = zip_file st"
  "verbose (check_field_codes ev root st) = verbose st"
  "filepath (check_field_codes ev root st) = filepath st"
  by (simp_all add: check_field_codes_def Let_def)

lemma check_equations_frame [simp]:
  "zip_file (check_equations root st) = zip_file st"
  "verbose (check_equations root st) = verbose st"
  "filepath (check_equations root st) = filepath st"
  by (simp_all add: check_equations_def Let_def)

lemma check_hyperlinks_frame [simp]:
  "zip_file (check_hyperlinks root st) = zip_file st"
  "verbose (check_hyperlinks root st) = verbose st"
  "filepath (check_hyperlinks root st) = filepath st"
  by (simp_all add: check_hyperlinks_def Let_def)

lemma check_namespaces_frame [simp]:
  "zip_file (snd (check_namespaces root st)) = zip_file st"
  "stats (snd (check_namespaces root st)) = stats st"
  "verbose (snd (check_namespaces root st)) = verbose st"
  "filepath (snd (check_namespaces root st)) = filepath st"
  by (simp_all add: check_namespaces_def Let_def split: sum.splits)

lemma seq_frame:
  assumes "\<And>f st. f \<in> set fs \<Longrightarrow> P (snd (f st)) = P st"
  shows "P (snd (seq fs st)) = P st"
  using assms
proof (induction fs arbitrary: st)
  case Nil
  then show ?case by simp
next
  case (Cons f fs)
  have h: "P (snd (f st)) = P st" using Cons.prems by simp
  show ?case
  proof (cases "f st")
    case (Pair r st')
    with h have p: "P st' = P st" by simp
    show ?thesis
    proof (cases r)
      case None
      with Pair p Cons.IH [of st'] Cons.prems show ?thesis by simp
    next
      case (Some e)
      with Pair p show ?thesis by simp
    qed
  qed
qed

lemma element_checks_frame [simp]:
  "zip_file (snd (element_checks ev root st)) = zip_file st"
  "verbose (snd (element_checks ev root st)) = verbose st"
  "filepath (snd (element_checks ev root st)) = filepath st"
  unfolding element_checks_def
  by (rule seq_frame; auto simp: run_check_def returns_def split: option.splits)+

lemma analyze_handler_frame [simp]:
  "zip_file (analyze_handler e st) = zip_file st"
  "stats (analyze_handler e st) = stats st"
  "verbose (analyze_handler e st) = verbose st"
  "filepath (analyze_handler e st) = filepath st"
  by (simp_all add: analyze_handler_def split: exn.splits)

lemma after_checks_frame [simp]:
  "zip_file (after_checks r) = zip_file (snd r)"
  "verbose (after_checks r) = verbose (snd r)"
  "filepath (after_checks r) = filepath (snd r)"
  "stats (after_checks r) = stats (snd r)"
  by (cases r; cases "fst r"; simp)+

lemma analyze_document_xml_frame [simp]:
  "zip_file (analyze_document_xml ev st) = zip_file st"
  "verbose (analyze_document_xml ev st) = verbose st"
  "filepath (analyze_document_xml ev st) = filepath st"
  by (simp_all add: analyze_document_xml_def Let_def split: option.splits sum.splits exn.splits)

lemma relationships_handler_frame [simp]:
  "zip_file (relationships_handler e st) = zip_file st"
  "stats (relationships_handler e st) = stats st"
  "verbose (relationships_handler e st) = verbose st"
  "filepath (relationships_handler e st) = filepath st"
  by (simp_all add: relationships_handler_def split: exn.splits)

lemma check_relationships_frame [simp]:
  "zip_file (check_relationships ev st) = zip_file st"
  "verbose (check_relationships ev st) = verbose st"
  "filepath (check_relationships ev st) = filepath st"
  by (simp_all add: check_relationships_def Let_def split: option.splits sum.splits)

lemma check_embedded_objects_frame [simp]:
  "zip_file (check_embedded_objects st) = zip_file st"
  "verbose (check_embedded_objects st) = verbose st"
  "filepath (check_embedded_objects st) = filepath st"
  by (simp_all add: check_embedded_objects_def Let_def split: option.splits)

section \<open>The loader stages\<close>

lemma run_all_checks_abort_file:
  "\<not> fst (check_file_exists ev st) \<Longrightarrow>
   run_all_checks ev st = (False, snd (check_file_exists ev st))"
  by (cases "check_file_exists ev st") (auto simp: run_all_checks_def)

lemma run_all_checks_abort_zip:
  "fst (check_file_exists ev st) \<Longrightarrow>
   \<not> fst (check_zip_structure ev (snd (check_file_exists ev st))) \<Longrightarrow>
   run_all_checks ev st = (False, snd (check_zip_structure ev (snd (check_file_exists ev st))))"
  by (cases "check_file_exists ev st"; cases "check_zip_structure ev (snd (check_file_exists ev st))")
     (auto simp: run_all_checks_def)

lemma run_all_checks_pass:
  assumes "check_file_exists ev st = (True, st1)" and "check_zip_structure ev st1 = (True, st2)"
  shows "run_all_checks ev st =
     (count_severity ERROR (issues (check_embedded_objects (check_relationships ev
         (analyze_document_xml ev (check_required_files st2))))) = 0,
      close_zip (check_embedded_objects (check_relationships ev
         (analyze_document_xml ev (check_required_files st2)))))"
  using assms by (simp add: run_all_checks_def Let_def)

lemma check_file_exists_fails:
  assumes "\<not> path_exists ev \<or> \<not> path_isfile ev \<or> path_getsize ev = 0"
  shows "fst (check_file_exists ev (init path v)) = False"
    and "map sev_cat (issues (snd (check_file_exists ev (init path v)))) = [(ERROR, ''File Access'')]"
    and "list_all (\<lambda>k. stats (snd (check_file_exists ev (init path v))) k = None) later_stage_keys"
  using assms by (auto simp: check_file_exists_def Let_def later_stage_keys_def)

lemma check_file_exists_passes:
  assumes "path_exists ev" "path_isfile ev" "path_getsize ev \<noteq> 0"
  shows "fst (check_file_exists ev (init path v)) = True"
    and "map sev_cat (issues (snd (check_file_exists ev (init path v)))) =
           (if path_getsize ev > 100 * 1024 * 1024 then [(WARNING, ''File Size'')] else [])"
    and "list_all (\<lambda>k. stats (snd (check_file_exists ev (init path v))) k = None) later_stage_keys"
    and "zip_file (snd (check_file_exists ev (init path v))) = None"
  using assms by (auto simp: check_file_exists_def Let_def later_stage_keys_def)

lemma check_zip_structure_fails:
  assumes "case zip_open ev of
             Inl e \<Rightarrow> True
           | Inr ar \<Rightarrow> (case testzip ar of
                          Inl e \<Rightarrow> True
                        | Inr None \<Rightarrow> False
                        | Inr (Some name) \<Rightarrow> name \<noteq> [])"
  shows "fst (check_zip_structure ev st) = False"
    and "map sev_cat (issues (snd (check_zip_structure ev st))) =
           map sev_cat (issues st) @ [(ERROR, ''ZIP Structure'')]"
    and "stats (snd (check_zip_structure ev st)) = stats st"
  using assms
  by (auto simp: check_zip_structure_def truthy_def Let_def split: sum.splits option.splits)

text \<open>
  C5, as amended. When the package loader fails (the path does not exist or is not a
  regular file, the file is empty, the archive does not open, or the integrity test
  raises or names a corrupted member), the run returns \<open>False\<close> at once: the report holds
  the one \<open>ERROR\<close> of the loader (after the \<open>File Size\<close> warning, if the file is large), no
  issue of a later stage and no statistic of a later stage. A missing mandatory part is
  not such a failure: \<open>_check_required_files\<close> records it and the run goes on.
\<close>

theorem loader_failure_aborts:
  assumes "loader_fails ev"
  shows "fst (run_all_checks ev (init path v)) = False
    \<and> map sev_cat (issues (snd (run_all_checks ev (init path v))))
        \<in> {[(ERROR, ''File Access'')], [(ERROR, ''ZIP Structure'')],
           [(WARNING, ''File Size''), (ERROR, ''ZIP Structure'')]}
    \<and> list_all (\<lambda>k. stats (snd (run_all_checks ev (init path v))) k = None) later_stage_keys"
proof (cases "\<not> path_exists ev \<or> \<not> path_isfile ev \<or> path_getsize ev = 0")
  case True
  note f = check_file_exists_fails [OF True, of path v]
  have "run_all_checks ev (init path v) = (False, snd (check_file_exists ev (init path v)))"
    using f(1) by (simp add: run_all_checks_abort_file)
  with f show ?thesis by simp
next
  case False
  then have ok: "path_exists ev" "path_isfile ev" "path_getsize ev \<noteq> 0"
    by simp_all
  note p = check_file_exists_passes [OF ok, of path v]
  have z: "case zip_open ev of
             Inl e \<Rightarrow> True
           | Inr ar \<Rightarrow> (case testzip ar of
                          Inl e \<Rightarrow> True
                        | Inr None \<Rightarrow> False
                        | Inr (Some name) \<Rightarrow> name \<noteq> [])"
    using assms False by (simp add: loader_fails_def)
  note q = check_zip_structure_fails [OF z, of "snd (check_file_exists ev (init path v))"]
  have "run_all_checks ev (init path v) =
          (False, snd (check_zip_structure ev (snd (check_file_exists ev (init path v)))))"
    using p(1) q(1) by (simp add: run_all_checks_abort_zip)
  with p q show ?thesis by simp
qed

theorem loader_failure_aborts_witness:
  "loader_fails (example_env (Inl (BadZipFile (lit ''File is not a zip file''))) [])
   \<and> fst (run_all_checks (example_env (Inl (BadZipFile (lit ''File is not a zip file''))) [])
            (init (lit ''a.docx'') False)) = False
   \<and> map sev_cat (issues (snd (run_all_checks
        (example_env (Inl (BadZipFile (lit ''File is not a zip file''))) [])
        (init (lit ''a.docx'') False)))) = [(ERROR, ''ZIP Structure'')]"
proof -
  have h: "loader_fails (example_env (Inl (BadZipFile (lit ''File is not a zip file''))) [])"
    by (simp add: loader_fails_def example_env_def)
  have "path_getsize (example_env (Inl (BadZipFile (lit ''File is not a zip file''))) []) = 1000"
    by (simp add: example_env_def)
  then have "map sev_cat (issues (snd (run_all_checks
        (example_env (Inl (BadZipFile (lit ''File is not a zip file''))) [])
        (init (lit ''a.docx'') False)))) = [(ERROR, ''ZIP Structure'')]"
    by (simp add: run_all_checks_def check_file_exists_def check_zip_structure_def Let_def
          example_env_def)
  with h loader_failure_aborts [OF h, of "lit ''a.docx''" False] show ?thesis
    by simp
qed

section \<open>The example package, stage by stage\<close>

lemma example_env_simps [simp]:
  "path_exists (example_env z t) = True" "path_isfile (example_env z t) = True"
  "path_getsize (example_env z t) = 1000" "zip_open (example_env z t) = z"
  "fromstring (example_env z t) = parse_table t" "str_upper (example_env z t) = ascii_upper"
  "set_order (example_env z t) = remdups" "fault (example_env z t) = (\<lambda>c. None)"
  by (simp_all add: example_env_def)

lemma unat_of_char_byte: "unat (of_char c :: 8 word) = of_char c"
proof -
  have "(of_char c :: 8 word) = of_nat (of_char c)"
    by (simp add: of_nat_of_char)
  moreover have "(of_char c :: nat) mod 256 = of_char c"
    by (rule of_char_mod_256)
  ultimately show ?thesis
    by (simp add: unat_of_nat)
qed

lemma utf8_from_ascii:
  "list_all (\<lambda>b. b < 128) bs \<Longrightarrow> utf8_from pos bs = Inr bs"
proof (induction bs arbitrary: pos)
  case Nil
  then show ?case by (simp add: utf8_from.simps)
next
  case (Cons b bs)
  then show ?case
    by (subst utf8_from.simps) (simp add: utf8_seq_def)
qed

lemma decode_utf8_ascii:
  assumes "list_all (\<lambda>c. (of_char c :: nat) < 128) s"
  shows "decode_utf8 (ascii_bytes s) = Inr (lit s)"
proof -
  have m: "map unat (ascii_bytes s) = lit s"
    by (simp add: ascii_bytes_def lit_def unat_of_char_byte)
  have "list_all (\<lambda>b. b < 128) (lit s)"
    using assms by (simp add: lit_def list_all_iff)
  then show ?thesis
    by (simp add: decode_utf8_def m utf8_from_ascii)
qed

lemma is_invalid_char_iff:
  "is_invalid_char c =
     (c \<le> 8 \<or> c = 11 \<or> c = 12 \<or> (14 \<le> c \<and> c \<le> 31) \<or> c = 127 \<or> c = 65534 \<or> c = 65535)"
  by (auto simp: is_invalid_char_def INVALID_CHAR_RANGES_def)

lemma invalid_found_Nil:
  "list_all (\<lambda>c. \<not> is_invalid_char c) t \<Longrightarrow> invalid_found t = []"
  by (simp add: invalid_found_def list_all_iff filter_empty_conv)

lemma doc_bytes_clean: "check_invalid_characters doc_bytes fn st = st"
proof -
  have d: "decode_utf8 doc_bytes = Inr (lit
     ''<w:document xmlns:w='http://schemas.openxmlformats.org/wordprocessingml/2006/main'><w:ins/><w:del/></w:document>'')"
    unfolding doc_bytes_def by (rule decode_utf8_ascii) simp
  have "invalid_found (lit
     ''<w:document xmlns:w='http://schemas.openxmlformats.org/wordprocessingml/2006/main'><w:ins/><w:del/></w:document>'') = []"
    by (rule invalid_found_Nil) (simp add: lit_def is_invalid_char_iff)
  then show ?thesis
    by (simp add: check_invalid_characters_def d)
qed

lemma doc_two_revisions_findall:
  "findall (qname ns_w t) doc_two_revisions =
     (if t = ''ins'' then [Elem (qname ns_w ''ins'') [] None []]
      else if t = ''del'' then [Elem (qname ns_w ''del'') [] None []] else [])"
  by (auto simp: findall_def doc_two_revisions_def)

lemma doc_two_revisions_findall_m [simp]: "findall (qname ns_m t) doc_two_revisions = []"
  by (simp add: findall_def doc_two_revisions_def qname_inj brace_free ns_distinct)

lemma doc_two_revisions_namespaces:
  "collect_namespaces (iter doc_two_revisions) [] = Inr [ns_w]"
  by (simp add: doc_two_revisions_def qname_ns brace_free)

lemma ns_w_known: "ns_w \<in> snd ` set NAMESPACES"
  by (simp add: NAMESPACES_def)

lemma doc_two_revisions_checks:
  "fault ev = (\<lambda>c. None) \<Longrightarrow>
   element_checks ev doc_two_revisions st = (None, doc_checks ev st)"
  by (simp add: element_checks_def run_check_def returns_def check_namespaces_def
        doc_two_revisions_namespaces ns_w_known doc_checks_def Let_def)

lemma doc_checks_simps [simp]:
  "map sev_cat (issues (doc_checks ev st)) = map sev_cat (issues st) @ [(WARNING, ''Tracked Changes'')]"
  "zip_file (doc_checks ev st) = zip_file st"
  by (simp_all add: doc_checks_def check_hyperlinks_def check_equations_def
        check_field_codes_def check_content_controls_def check_smart_tags_def
        check_tracked_changes_def Let_def doc_two_revisions_findall)

lemma doc_checks_stats:
  "stats (doc_checks ev st) ''hyperlinks'' = Some (SInt 0)"
  by (simp add: doc_checks_def check_hyperlinks_def Let_def doc_two_revisions_findall)

lemma check_file_exists_example:
  "check_file_exists (example_env z t) (init p v) =
     (True, set_stat ''file_size_mb'' (SCenti 0) (set_stat ''file_size'' (SInt 1000) (init p v)))"
  by (simp add: check_file_exists_def file_size_mb_def Let_def)

lemma check_zip_structure_passes:
  "zip_open ev = Inr ar \<Longrightarrow> testzip ar = Inr bad \<Longrightarrow> \<not> truthy bad \<Longrightarrow>
   check_zip_structure ev st =
     (True, set_stat ''zip_files'' (SInt (length (namelist ar)))
              (st\<lparr>zip_file := Some \<lparr>archive = ar, closed = False\<rparr>\<rparr>))"
  by (simp add: check_zip_structure_def)

lemma analyze_example_document:
  assumes "zip_file st = Some zf"
    and "zip_read (archive zf) (lit ''word/document.xml'') = Some doc_bytes"
  shows "analyze_document_xml (example_env z [(doc_bytes, doc_two_revisions)]) st
         = doc_checks (example_env z [(doc_bytes, doc_two_revisions)]) st"
  using assms
  by (simp add: analyze_document_xml_def doc_bytes_clean doc_two_revisions_checks parse_table_def)

lemma check_relationships_missing:
  assumes "zip_file st = Some zf" and "rels_path \<notin> set (namelist (archive zf))"
  shows "check_relationships ev st =
           add_issue WARNING ''Relationships'' (lit ''Document relationships file not found'')
             (Some rels_path) None None st"
  using assms by (simp add: check_relationships_def)

lemma check_embedded_objects_none:
  assumes "zip_file st = Some zf"
    and "filter (\<lambda>f. startswith f (lit ''word/embeddings/'')) (namelist (archive zf)) = []"
    and "filter (\<lambda>f. startswith f (lit ''word/media/'')) (namelist (archive zf)) = []"
  shows "check_embedded_objects st =
           set_stat ''media_files'' (SInt 0) (set_stat ''embedded_objects'' (SInt 0) st)"
  using assms by (simp add: check_embedded_objects_def Let_def)

lemma count_severity_zero_iff:
  "(count_severity sev xs = 0) = (filter (\<lambda>p. fst p = sev) (map sev_cat xs) = [])"
  by (simp add: count_severity_def filter_map o_def sev_cat_def)

text \<open>
  The run on a package that passes the loader, holds the example document, no
  relationships part, no embedding and no media: the issues are those of
  \<open>_check_required_files\<close>, then the tracked-changes warning, then the warning about the
  missing relationships part.
\<close>

lemma example_run:
  assumes tz: "testzip ar = Inr bad" "\<not> truthy bad"
    and doc: "zip_read ar (lit ''word/document.xml'') = Some doc_bytes"
    and rels: "rels_path \<notin> set (namelist ar)"
    and emb: "filter (\<lambda>f. startswith f (lit ''word/embeddings/'')) (namelist ar) = []"
    and med: "filter (\<lambda>f. startswith f (lit ''word/media/'')) (namelist ar) = []"
    and req: "\<And>st. zip_file st = Some \<lparr>archive = ar, closed = False\<rparr> \<Longrightarrow>
                map sev_cat (issues (check_required_files st)) = map sev_cat (issues st) @ rs"
  shows "map sev_cat (issues (snd (run_all_checks
            (example_env (Inr ar) [(doc_bytes, doc_two_revisions)]) (init p v))))
          = rs @ [(WARNING, ''Tracked Changes''), (WARNING, ''Relationships'')]"
    and "stats (snd (run_all_checks
            (example_env (Inr ar) [(doc_bytes, doc_two_revisions)]) (init p v))) ''embedded_objects''
          = Some (SInt 0)"
    and "stats (snd (run_all_checks
            (example_env (Inr ar) [(doc_bytes, doc_two_revisions)]) (init p v))) ''hyperlinks''
          = Some (SInt 0)"
    and "map_option closed (zip_file (snd (run_all_checks
            (example_env (Inr ar) [(doc_bytes, doc_two_revisions)]) (init p v)))) = Some True"
    and "fst (run_all_checks
            (example_env (Inr ar) [(doc_bytes, doc_two_revisions)]) (init p v))
          = (filter (\<lambda>p. fst p = ERROR) rs = [])"
proof -
  let ?ev = "example_env (Inr ar) [(doc_bytes, doc_two_revisions)]"
  let ?zf = "\<lparr>archive = ar, closed = False\<rparr>"
  define st2 where "st2 = set_stat ''zip_files'' (SInt (length (namelist ar)))
     ((set_stat ''file_size_mb'' (SCenti 0) (set_stat ''file_size'' (SInt 1000) (init p v)))
        \<lparr>zip_file := Some ?zf\<rparr>)"
  define st3 where "st3 = check_required_files st2"
  define st4 where "st4 = doc_checks ?ev st3"
  define st5 where "st5 = add_issue WARNING ''Relationships''
      (lit ''Document relationships file not found'') (Some rels_path) None None st4"
  define st6 where "st6 = set_stat ''media_files'' (SInt 0) (set_stat ''embedded_objects'' (SInt 0) st5)"
  have z2: "zip_file st2 = Some ?zf" and i2: "issues st2 = []"
    by (simp_all add: st2_def)
  have z3: "zip_file st3 = Some ?zf" and i3: "map sev_cat (issues st3) = rs"
    using req [OF z2] by (simp_all add: st3_def z2 i2)
  have a: "analyze_document_xml ?ev st3 = st4"
    unfolding st4_def by (rule analyze_example_document [OF z3]) (simp add: doc)
  have z4: "zip_file st4 = Some ?zf"
    by (simp add: st4_def z3)
  have b: "check_relationships ?ev st4 = st5"
    unfolding st5_def by (rule check_relationships_missing [OF z4]) (simp add: rels)
  have z5: "zip_file st5 = Some ?zf"
    by (simp add: st5_def z4)
  have c: "check_embedded_objects st5 = st6"
    unfolding st6_def by (rule check_embedded_objects_none [OF z5]) (simp_all add: emb med)
  have zs: "check_zip_structure ?ev
      (set_stat ''file_size_mb'' (SCenti 0) (set_stat ''file_size'' (SInt 1000) (init p v)))
      = (True, st2)"
    unfolding st2_def by (rule check_zip_structure_passes [OF _ tz]) simp
  have r: "snd (run_all_checks ?ev (init p v)) = close_zip st6"
    using run_all_checks_pass [OF check_file_exists_example zs]
    by (simp add: a b c st3_def [symmetric])
  show "map sev_cat (issues (snd (run_all_checks ?ev (init p v))))
          = rs @ [(WARNING, ''Tracked Changes''), (WARNING, ''Relationships'')]"
    by (simp add: r st6_def st5_def st4_def i3)
  show "stats (snd (run_all_checks ?ev (init p v))) ''embedded_objects'' = Some (SInt 0)"
    by (simp add: r st6_def)
  show "stats (snd (run_all_checks ?ev (init p v))) ''hyperlinks'' = Some (SInt 0)"
    by (simp add: r st6_def st5_def st4_def doc_checks_stats)
  show "map_option closed (zip_file (snd (run_all_checks ?ev (init p v)))) = Some True"
    by (simp add: r st6_def z5)
  have "fst (run_all_checks ?ev (init p v)) = (count_severity ERROR (issues st6) = 0)"
    using run_all_checks_pass [OF check_file_exists_example zs]
    by (simp add: a b c st3_def [symmetric])
  also have "\<dots> = (filter (\<lambda>p. fst p = ERROR) (map sev_cat (issues st6)) = [])"
    by (rule count_severity_zero_iff)
  also have "map sev_cat (issues st6) = rs @ [(WARNING, ''Tracked Changes''), (WARNING, ''Relationships'')]"
    by (simp add: st6_def st5_def st4_def i3)
  finally show "fst (run_all_checks ?ev (init p v)) = (filter (\<lambda>p. fst p = ERROR) rs = [])"
    by simp
qed
section \<open>Loader failures on concrete packages\<close>

lemma archive_corrupt_unnamed_facts:
  "testzip archive_corrupt_unnamed = Inr (Some [])"
  "\<not> truthy (Some [])"
  "zip_read archive_corrupt_unnamed (lit ''word/document.xml'') = Some doc_bytes"
  "rels_path \<notin> set (namelist archive_corrupt_unnamed)"
  "filter (\<lambda>f. startswith f (lit ''word/embeddings/'')) (namelist archive_corrupt_unnamed) = []"
  "filter (\<lambda>f. startswith f (lit ''word/media/'')) (namelist archive_corrupt_unnamed) = []"
  by (simp_all add: zip_read_def archive_corrupt_unnamed_def minimal_entries_def namelist_def
       rels_path_def startswith_def lit_def truthy_def)

lemma archive_corrupt_unnamed_required:
  "zip_file st = Some \<lparr>archive = archive_corrupt_unnamed, closed = False\<rparr> \<Longrightarrow>
   map sev_cat (issues (check_required_files st)) = map sev_cat (issues st) @
      [(INFO, ''DOCX Structure''), (INFO, ''DOCX Structure''), (INFO, ''DOCX Structure'')]"
  by (simp add: check_required_files_def archive_corrupt_unnamed_def namelist_def
        minimal_entries_def REQUIRED_FILES_def optional_files_def Let_def)

lemma archive_document_only_facts:
  "testzip archive_document_only = Inr None"
  "\<not> truthy None"
  "zip_read archive_document_only (lit ''word/document.xml'') = Some doc_bytes"
  "rels_path \<notin> set (namelist archive_document_only)"
  "filter (\<lambda>f. startswith f (lit ''word/embeddings/'')) (namelist archive_document_only) = []"
  "filter (\<lambda>f. startswith f (lit ''word/media/'')) (namelist archive_document_only) = []"
  by (simp_all add: zip_read_def archive_document_only_def namelist_def
       rels_path_def truthy_def)

lemma archive_document_only_required:
  "zip_file st = Some \<lparr>archive = archive_document_only, closed = False\<rparr> \<Longrightarrow>
   map sev_cat (issues (check_required_files st)) = map sev_cat (issues st) @
      [(ERROR, ''DOCX Structure''), (ERROR, ''DOCX Structure''),
       (INFO, ''DOCX Structure''), (INFO, ''DOCX Structure''), (INFO, ''DOCX Structure'')]"
  by (simp add: check_required_files_def archive_document_only_def namelist_def
        REQUIRED_FILES_def optional_files_def Let_def)

text \<open>
  C5 as stated fails where the structural validator is the stage that fails: in a package
  that holds the main document part but neither \<open>[Content_Types].xml\<close> nor \<open>_rels/.rels\<close>,
  \<open>_check_required_files\<close> records two \<open>ERROR\<close> issues, and the analysis of the document,
  the relationship check and the embedded-object scan run all the same.
\<close>

theorem missing_part_does_not_abort_counterexample:
  "lit ''[Content_Types].xml'' \<notin> set (namelist archive_document_only)
   \<and> lit ''_rels/.rels'' \<notin> set (namelist archive_document_only)
   \<and> map sev_cat (issues (snd (run_all_checks
         (example_env (Inr archive_document_only) [(doc_bytes, doc_two_revisions)])
         (init (lit ''a.docx'') False)))) =
       [(ERROR, ''DOCX Structure''), (ERROR, ''DOCX Structure''),
        (INFO, ''DOCX Structure''), (INFO, ''DOCX Structure''), (INFO, ''DOCX Structure''),
        (WARNING, ''Tracked Changes''), (WARNING, ''Relationships'')]
   \<and> stats (snd (run_all_checks
         (example_env (Inr archive_document_only) [(doc_bytes, doc_two_revisions)])
         (init (lit ''a.docx'') False))) ''hyperlinks'' = Some (SInt 0)
   \<and> stats (snd (run_all_checks
         (example_env (Inr archive_document_only) [(doc_bytes, doc_two_revisions)])
         (init (lit ''a.docx'') False))) ''embedded_objects'' = Some (SInt 0)"
proof -
  note r = example_run [OF archive_document_only_facts archive_document_only_required,
      of "lit ''a.docx''" False]
  have "lit ''[Content_Types].xml'' \<notin> set (namelist archive_document_only)"
    "lit ''_rels/.rels'' \<notin> set (namelist archive_document_only)"
    by (simp_all add: archive_document_only_def namelist_def)
  with r(1,2,3) show ?thesis by simp
qed

text \<open>
  C7, evaluated at an archive whose corrupted member has the empty name. \<open>testzip()\<close>
  returns the name \<open>''\<close>, which \<open>if bad_file:\<close> takes for false: the integrity failure is
  not reported, the run goes through all later stages and returns \<open>True\<close>, with no issue
  of category \<open>ZIP Structure\<close> and no \<open>ERROR\<close> at all.
\<close>

theorem unnamed_corrupt_member_not_reported:
  "testzip archive_corrupt_unnamed = Inr (Some [])
   \<and> fst (run_all_checks
         (example_env (Inr archive_corrupt_unnamed) [(doc_bytes, doc_two_revisions)])
         (init (lit ''a.docx'') False)) = True
   \<and> map sev_cat (issues (snd (run_all_checks
         (example_env (Inr archive_corrupt_unnamed) [(doc_bytes, doc_two_revisions)])
         (init (lit ''a.docx'') False)))) =
       [(INFO, ''DOCX Structure''), (INFO, ''DOCX Structure''), (INFO, ''DOCX Structure''),
        (WARNING, ''Tracked Changes''), (WARNING, ''Relationships'')]"
proof -
  note r = example_run [OF archive_corrupt_unnamed_facts archive_corrupt_unnamed_required,
      of "lit ''a.docx''" False]
  from r(1,5) archive_corrupt_unnamed_facts(1) show ?thesis by simp
qed

text \<open>
  C4, evaluated at an archive that opens and whose integrity test names a corrupted
  member. \<open>_check_zip_structure\<close> has stored the open handle in \<open>self.zip_file\<close> when it
  returns \<open>False\<close>, and \<open>run_all_checks\<close> returns at once, before the \<open>close()\<close> at its end:
  the run is over and the handle is still open.
\<close>

theorem handle_left_open_on_corrupt_member:
  "fst (run_all_checks
         (example_env (Inr archive_corrupt_member) [(doc_bytes, doc_two_revisions)])
         (init (lit ''a.docx'') False)) = False
   \<and> map sev_cat (issues (snd (run_all_checks
         (example_env (Inr archive_corrupt_member) [(doc_bytes, doc_two_revisions)])
         (init (lit ''a.docx'') False)))) = [(ERROR, ''ZIP Structure'')]
   \<and> map_option closed (zip_file (snd (run_all_checks
         (example_env (Inr archive_corrupt_member) [(doc_bytes, doc_two_revisions)])
         (init (lit ''a.docx'') False)))) = Some False"
  by (simp add: run_all_checks_def check_file_exists_def check_zip_structure_def Let_def
        archive_corrupt_member_def truthy_def)

text \<open>
  On the other paths the handle is released: when the loader passes, every later stage
  keeps the handle and the run closes it at its end, whatever the checks find.
\<close>

lemma handle_closed_when_loader_passes:
  assumes "check_file_exists ev st = (True, st1)" and "check_zip_structure ev st1 = (True, st2)"
  shows "\<exists>zf. zip_file (snd (run_all_checks ev st)) = Some zf \<and> closed zf"
proof -
  obtain ar where "zip_file st2 = Some \<lparr>archive = ar, closed = False\<rparr>"
    using assms(2)
    by (auto simp: check_zip_structure_def Let_def split: sum.splits if_splits)
  then show ?thesis
    by (simp add: run_all_checks_pass [OF assms])
qed

section \<open>Decoding failures\<close>

lemma utf8_seq_take:
  assumes "utf8_seq bs = Some (cp, n)" and "n \<le> m"
  shows "utf8_seq (take m bs) = Some (cp, n)"
proof -
  from assms(1) have n: "0 < n" "n \<le> length bs" "n \<le> 4"
    by (auto simp: utf8_seq_def split: list.splits if_splits)
  obtain b0 r where bs: "bs = b0 # r" using n by (cases bs) auto
  show ?thesis
  proof (cases "b0 < 128")
    case True
    with assms bs show ?thesis
      by (cases m) (auto simp: utf8_seq_def)
  next
    case False
    note nb0 = False
    show ?thesis
    proof (cases "194 \<le> b0 \<and> b0 \<le> 223")
      case True
      with assms bs nb0 obtain b1 r1 where "r = b1 # r1" "n = 2"
        by (auto simp: utf8_seq_def split: list.splits if_splits)
      with assms bs nb0 True show ?thesis
        by (cases m; cases "m - 1") (auto simp: utf8_seq_def split: if_splits)
    next
      case False
      note n2 = False
      show ?thesis
      proof (cases "224 \<le> b0 \<and> b0 \<le> 239")
        case True
        with assms bs nb0 n2 obtain b1 b2 r2 where "r = b1 # b2 # r2" "n = 3"
          by (auto simp: utf8_seq_def split: list.splits if_splits)
        with assms bs nb0 n2 True show ?thesis
          by (cases m; cases "m - 1"; cases "m - 2") (auto simp: utf8_seq_def split: if_splits)
      next
        case False
        with assms bs nb0 n2 obtain b1 b2 b3 r3 where "r = b1 # b2 # b3 # r3" "n = 4"
          by (auto simp: utf8_seq_def split: list.splits if_splits)
        with assms bs nb0 n2 False show ?thesis
          by (cases m; cases "m - 1"; cases "m - 2"; cases "m - 3")
             (auto simp: utf8_seq_def split: if_splits)
      qed
    qed
  qed
qed

lemma utf8_from_step:
  assumes "bs \<noteq> []" and "utf8_seq bs = Some (cp, n)"
    and "utf8_from (pos + n) (drop n bs) = Inr t"
  shows "utf8_from pos bs = Inr (cp # t)"
  by (subst utf8_from.simps) (simp add: assms)

text \<open>
  The offset the decoder reports is that of the first invalid sequence: the bytes before
  it decode, and no valid sequence starts at it.
\<close>

lemma utf8_from_Inl:
  "utf8_from pos bs = Inl k \<Longrightarrow>
   pos \<le> k \<and> k - pos < length bs \<and> utf8_seq (drop (k - pos) bs) = None
   \<and> (\<exists>t. utf8_from pos (take (k - pos) bs) = Inr t)"
proof (induction pos bs arbitrary: k rule: utf8_from.induct)
  case (1 pos bs)
  from "1.prems" have ne: "bs \<noteq> []"
    by (subst (asm) utf8_from.simps) (simp split: if_splits)
  show ?case
  proof (cases "utf8_seq bs")
    case None
    with "1.prems" ne have "k = pos"
      by (subst (asm) utf8_from.simps) simp
    with None ne show ?thesis
      by (simp add: utf8_from.simps [of pos "[]"])
  next
    case (Some p)
    obtain cp n where p: "p = (cp, n)" by (cases p)
    from Some p have n: "0 < n" "n \<le> length bs"
      using utf8_seq_length by blast+
    from "1.prems" ne Some p have rec: "utf8_from (pos + n) (drop n bs) = Inl k"
      by (subst (asm) utf8_from.simps) (simp split: sum.splits)
    from "1.IH" [OF ne Some p [symmetric] rec]
    obtain t where ih: "pos + n \<le> k" "k - (pos + n) < length (drop n bs)"
      "utf8_seq (drop (k - (pos + n)) (drop n bs)) = None"
      "utf8_from (pos + n) (take (k - (pos + n)) (drop n bs)) = Inr t"
      by blast
    have le: "n \<le> k - pos" using ih(1) by simp
    have "k - (pos + n) + n = k - pos"
      using ih(1) by simp
    then have d: "drop (k - pos) bs = drop (k - (pos + n)) (drop n bs)"
      by simp
    have tk: "drop n (take (k - pos) bs) = take (k - (pos + n)) (drop n bs)"
      using le by (simp add: drop_take)
    have tne: "take (k - pos) bs \<noteq> []"
      using ne n le by (cases bs) auto
    have sq: "utf8_seq (take (k - pos) bs) = Some (cp, n)"
      using Some p le by (simp add: utf8_seq_take)
    have "utf8_from (pos + n) (drop n (take (k - pos) bs)) = Inr t"
      by (simp only: tk ih(4))
    then have "utf8_from pos (take (k - pos) bs) = Inr (cp # t)"
      by (rule utf8_from_step [OF tne sq])
    moreover have "utf8_seq (drop (k - pos) bs) = None"
      by (simp only: d ih(3))
    moreover have "k - pos < length bs"
      using ih(1,2) n by simp
    moreover have "pos \<le> k"
      using ih(1) by simp
    ultimately show ?thesis
      by blast
  qed
qed

lemma decode_utf8_Inl:
  assumes "decode_utf8 content = Inl k"
  shows "k < length content"
    and "utf8_seq (drop k (map unat content)) = None"
    and "\<exists>t. decode_utf8 (take k content) = Inr t"
  using utf8_from_Inl [of 0 "map unat content" k] assms
  by (simp_all add: decode_utf8_def take_map)

lemma utf8_from_ascii_prefix:
  "list_all (\<lambda>b. b < 128) bs \<Longrightarrow>
   utf8_from pos (bs @ rest) =
     (case utf8_from (pos + length bs) rest of Inl e \<Rightarrow> Inl e | Inr cs \<Rightarrow> Inr (bs @ cs))"
proof (induction bs arbitrary: pos)
  case Nil
  then show ?case by (simp split: sum.splits)
next
  case (Cons b bs)
  then show ?case
    by (subst utf8_from.simps) (simp add: utf8_seq_def split: sum.splits)
qed

lemma decode_utf8_latin1: "decode_utf8 latin1_doc_bytes = Inl 142"
proof -
  let ?p = "''<?xml version='1.0' encoding='ISO-8859-1'?><w:document xmlns:w='http://schemas.openxmlformats.org/wordprocessingml/2006/main'><w:ins/><w:del/>''"
  have m: "map unat latin1_doc_bytes = lit ?p @ (233 # lit ''</w:document>'')"
    by (simp add: latin1_doc_bytes_def ascii_bytes_def lit_def unat_of_char_byte)
  have a: "list_all (\<lambda>b. b < 128) (lit ?p)"
    by (simp add: lit_def)
  have l: "length (lit ?p) = 142"
    by (simp add: lit_def)
  have e: "utf8_from 142 (233 # lit ''</w:document>'') = Inl 142"
    by (subst utf8_from.simps) (simp add: utf8_seq_def lit_def cont_def)
  show ?thesis
    by (simp only: decode_utf8_def m utf8_from_ascii_prefix [OF a] l) (simp add: e)
qed

lemma decode_utf8_ff: "decode_utf8 [0xFF] = Inl 0"
  by (simp add: decode_utf8_def utf8_from.simps [of 0 "[255]"] utf8_seq_def)

lemma check_invalid_characters_undecodable:
  "decode_utf8 content = Inl k \<Longrightarrow>
   check_invalid_characters content fn st =
     add_issue ERROR ''Encoding'' (lit ''Invalid UTF-8 encoding in '' @ fn)
       (Some (lit ''Byte position: '' @ str_nat k)) None
       (Some (lit ''Document contains invalid byte sequences. May need manual repair.'')) st"
  by (simp add: check_invalid_characters_def)

lemma opened_simps [simp]:
  "issues (opened es) = []"
  "stats (opened es) = Map.empty"
  "zip_file (opened es) = Some \<lparr>archive = \<lparr>testzip = Inr None, entries = es\<rparr>, closed = False\<rparr>"
  by (simp_all add: opened_def)

text \<open>
  C3, as amended. When the bytes of the part do not decode as UTF-8, the decoder's offset
  \<open>k\<close> is that of the first invalid sequence (the bytes before it decode, no valid sequence
  starts at it), \<open>_check_invalid_characters\<close> records one \<open>Encoding\<close> error that carries
  \<open>k\<close> and scans no character. \<open>_analyze_document_xml\<close> then goes on as after any other
  outcome of that check: it gives the raw bytes to the XML parser, records \<open>XML Parsing\<close>
  when the parser rejects them, and runs the element checks when it accepts them.
\<close>

theorem decode_failure_recorded_then_parsed:
  assumes "decode_utf8 content = Inl k"
  shows "k < length content
    \<and> utf8_seq (drop k (map unat content)) = None
    \<and> (\<exists>t. decode_utf8 (take k content) = Inr t)
    \<and> check_invalid_characters content fn st =
         add_issue ERROR ''Encoding'' (lit ''Invalid UTF-8 encoding in '' @ fn)
           (Some (lit ''Byte position: '' @ str_nat k)) None
           (Some (lit ''Document contains invalid byte sequences. May need manual repair.'')) st
    \<and> (\<forall>zf. zip_file st = Some zf
           \<and> zip_read (archive zf) (lit ''word/document.xml'') = Some content \<longrightarrow>
         analyze_document_xml ev st =
           (case fromstring ev content of
              Inl (ParseError m) \<Rightarrow>
                add_issue ERROR ''XML Parsing'' (lit ''Failed to parse document.xml: '' @ m)
                  None None
                  (Some (lit ''Document XML is malformed. Check for invalid characters or corrupted content.''))
                  (check_invalid_characters content (lit ''word/document.xml'') st)
            | Inl e \<Rightarrow>
                analyze_handler e (check_invalid_characters content (lit ''word/document.xml'') st)
            | Inr root \<Rightarrow>
                after_checks (element_checks ev root
                  (check_invalid_characters content (lit ''word/document.xml'') st))))"
  using decode_utf8_Inl [OF assms]
  by (simp add: analyze_document_xml_def Let_def check_invalid_characters_undecodable [OF assms]
        split: sum.splits exn.splits)

theorem decode_failure_recorded_then_parsed_witness:
  "decode_utf8 [0xFF] = Inl 0
   \<and> check_invalid_characters [0xFF] (lit ''word/document.xml'') (init (lit ''a.docx'') False) =
       add_issue ERROR ''Encoding'' (lit ''Invalid UTF-8 encoding in '' @ lit ''word/document.xml'')
         (Some (lit ''Byte position: '' @ str_nat 0)) None
         (Some (lit ''Document contains invalid byte sequences. May need manual repair.''))
         (init (lit ''a.docx'') False)"
  using decode_failure_recorded_then_parsed [OF decode_utf8_ff, of "lit ''word/document.xml''"
      "init (lit ''a.docx'') False"] decode_utf8_ff
  by simp

text \<open>
  C3 as stated fails at both example parts. For the ISO-8859-1 document the decoder stops
  at offset 142, the \<open>Encoding\<close> error is recorded, and the part is parsed all the same:
  the element checks run on it (the tracked-changes warning, the hyperlink statistic).
  For the part \<open>0xFF\<close> the parser is called and its failure is recorded as a second
  error.
\<close>

theorem parse_attempted_after_decode_failure_counterexample:
  "decode_utf8 latin1_doc_bytes = Inl 142
   \<and> map sev_cat (issues (analyze_document_xml
         (example_env (Inl (BadZipFile [])) [(latin1_doc_bytes, doc_two_revisions)])
         (opened [(lit ''word/document.xml'', latin1_doc_bytes)])))
       = [(ERROR, ''Encoding''), (WARNING, ''Tracked Changes'')]
   \<and> stats (analyze_document_xml
         (example_env (Inl (BadZipFile [])) [(latin1_doc_bytes, doc_two_revisions)])
         (opened [(lit ''word/document.xml'', latin1_doc_bytes)])) ''hyperlinks'' = Some (SInt 0)
   \<and> decode_utf8 [0xFF] = Inl 0
   \<and> map sev_cat (issues (analyze_document_xml
         (example_env (Inl (BadZipFile [])) [])
         (opened [(lit ''word/document.xml'', [0xFF])])))
       = [(ERROR, ''Encoding''), (ERROR, ''XML Parsing'')]"
proof -
  have a: "analyze_document_xml
         (example_env (Inl (BadZipFile [])) [(latin1_doc_bytes, doc_two_revisions)])
         (opened [(lit ''word/document.xml'', latin1_doc_bytes)])
       = doc_checks (example_env (Inl (BadZipFile [])) [(latin1_doc_bytes, doc_two_revisions)])
           (check_invalid_characters latin1_doc_bytes (lit ''word/document.xml'')
              (opened [(lit ''word/document.xml'', latin1_doc_bytes)]))"
    by (simp add: analyze_document_xml_def opened_def zip_read_def parse_table_def
          doc_two_revisions_checks)
  have b: "map sev_cat (issues (analyze_document_xml
         (example_env (Inl (BadZipFile [])) [])
         (opened [(lit ''word/document.xml'', [0xFF])])))
       = [(ERROR, ''Encoding''), (ERROR, ''XML Parsing'')]"
    by (simp add: analyze_document_xml_def opened_def zip_read_def parse_table_def
          check_invalid_characters_undecodable [OF decode_utf8_ff])
  show ?thesis
    by (simp add: a b decode_utf8_latin1 decode_utf8_ff doc_checks_stats
          check_invalid_characters_undecodable [OF decode_utf8_latin1])
qed

section \<open>An exception inside an element check\<close>

lemma analyze_handler_issues:
  "issues (analyze_handler e st) = issues st @
     [\<lparr>severity = ERROR, category = handler_category e,
       message = (case e of KeyError m \<Rightarrow> lit ''document.xml not found in archive''
                  | _ \<Rightarrow> lit ''Error analyzing document.xml: '' @ exn_str e),
       location = None, context' = None, suggestion = None\<rparr>]"
  by (cases e) (simp_all add: analyze_handler_def handler_category_def)

lemma element_checks_raise:
  assumes "fault ev c = Some e"
    and "\<forall>c' \<in> set (checks_before c). fault ev c' = None"
  shows "element_checks ev root st = (Some e, fold (check_effect ev root) (checks_before c) st)"
  using assms
  by (cases c)
     (simp_all add: element_checks_def run_check_def returns_def checks_before_def check_order_def)

text \<open>
  C2, as amended. The element checks share one \<open>try\<close> block. When an exception arises in
  one of them (and in none before it), the checks before it have run, the handler of the
  block records exactly one issue for the exception (\<open>Analysis/ERROR\<close> with its text, or
  \<open>DOCX Structure/ERROR\<close> for a \<open>KeyError\<close>), and the checks after it do not run: the state
  \<open>_analyze_document_xml\<close> leaves is the state after the earlier checks plus that issue.
  The stages after \<open>_analyze_document_xml\<close> are outside the block and still run: in a run
  whose loader passed, \<open>_check_relationships\<close> and then \<open>_check_embedded_objects\<close> are
  applied to that state, and the archive is closed.
\<close>

theorem exception_in_check_skips_later_checks:
  assumes "zip_file st = Some zf"
    and "zip_read (archive zf) (lit ''word/document.xml'') = Some content"
    and "fromstring ev content = Inr root"
    and "fault ev c = Some e"
    and "\<forall>c' \<in> set (checks_before c). fault ev c' = None"
  shows "analyze_document_xml ev st =
           analyze_handler e (fold (check_effect ev root) (checks_before c)
             (check_invalid_characters content (lit ''word/document.xml'') st))
    \<and> issues (analyze_document_xml ev st) =
         issues (fold (check_effect ev root) (checks_before c)
             (check_invalid_characters content (lit ''word/document.xml'') st))
         @ [\<lparr>severity = ERROR, category = handler_category e,
             message = (case e of KeyError m \<Rightarrow> lit ''document.xml not found in archive''
                        | _ \<Rightarrow> lit ''Error analyzing document.xml: '' @ exn_str e),
             location = None, context' = None, suggestion = None\<rparr>]
    \<and> stats (analyze_document_xml ev st) =
         stats (fold (check_effect ev root) (checks_before c)
             (check_invalid_characters content (lit ''word/document.xml'') st))
    \<and> (check_file_exists ev st0 = (True, st1) \<and> check_zip_structure ev st1 = (True, st2)
          \<and> check_required_files st2 = st \<longrightarrow>
        snd (run_all_checks ev st0) =
          close_zip (check_embedded_objects (check_relationships ev
            (analyze_handler e (fold (check_effect ev root) (checks_before c)
               (check_invalid_characters content (lit ''word/document.xml'') st))))))"
proof -
  have a: "analyze_document_xml ev st =
           analyze_handler e (fold (check_effect ev root) (checks_before c)
             (check_invalid_characters content (lit ''word/document.xml'') st))"
    using assms(1-3) by (simp add: analyze_document_xml_def element_checks_raise [OF assms(4,5)])
  have "snd (run_all_checks ev st0) =
          close_zip (check_embedded_objects (check_relationships ev
            (analyze_handler e (fold (check_effect ev root) (checks_before c)
               (check_invalid_characters content (lit ''word/document.xml'') st)))))"
    if "check_file_exists ev st0 = (True, st1)" "check_zip_structure ev st1 = (True, st2)"
      "check_required_files st2 = st"
    using run_all_checks_pass [OF that(1,2)] that(3) a by simp
  with a show ?thesis
    by (simp add: analyze_handler_issues)
qed

lemma smart_tags_fault_env_simps [simp]:
  "fromstring smart_tags_fault_env = parse_table [(doc_bytes, doc_two_revisions)]"
  "fault smart_tags_fault_env =
     (\<lambda>c. if c = SmartTags then Some (OtherError (lit ''out of memory'')) else None)"
  by (simp_all add: smart_tags_fault_env_def)

lemma checks_before_SmartTags: "checks_before SmartTags = [TrackedChanges]"
  by (simp add: checks_before_def check_order_def)

lemma opened_document:
  "zip_read (archive \<lparr>archive = \<lparr>testzip = Inr None,
       entries = [(lit ''word/document.xml'', content)]\<rparr>, closed = False\<rparr>)
     (lit ''word/document.xml'') = Some content"
  by (simp add: zip_read_def)

lemma smart_tags_fault_env_loader:
  "check_file_exists smart_tags_fault_env (init p v) =
     (True, set_stat ''file_size_mb'' (SCenti 0) (set_stat ''file_size'' (SInt 1000) (init p v)))"
  "check_zip_structure smart_tags_fault_env st =
     (True, set_stat ''zip_files'' (SInt (length (namelist archive_document_only)))
              (st\<lparr>zip_file := Some \<lparr>archive = archive_document_only, closed = False\<rparr>\<rparr>))"
  by (simp_all add: check_file_exists_def check_zip_structure_def smart_tags_fault_env_def
        example_env_def file_size_mb_def Let_def archive_document_only_facts)

text \<open>
  The run on the package that holds only the main document part, with the exception
  arising in \<open>_check_smart_tags\<close>: the state the later stages work on, and what the run
  leaves.
\<close>

lemma smart_tags_fault_run:
  assumes r: "snd (run_all_checks smart_tags_fault_env (init (lit ''a.docx'') False)) =
          close_zip (check_embedded_objects (check_relationships smart_tags_fault_env
            (analyze_handler (OtherError (lit ''out of memory''))
               (check_tracked_changes doc_two_revisions
                  (check_required_files
                     (set_stat ''zip_files'' (SInt (length (namelist archive_document_only)))
                        ((set_stat ''file_size_mb'' (SCenti 0)
                            (set_stat ''file_size'' (SInt 1000) (init (lit ''a.docx'') False)))
                           \<lparr>zip_file := Some \<lparr>archive = archive_document_only, closed = False\<rparr>\<rparr>)))))))"
  shows "map sev_cat (issues (snd (run_all_checks smart_tags_fault_env (init (lit ''a.docx'') False))))
          = [(ERROR, ''DOCX Structure''), (ERROR, ''DOCX Structure''),
             (INFO, ''DOCX Structure''), (INFO, ''DOCX Structure''), (INFO, ''DOCX Structure''),
             (WARNING, ''Tracked Changes''), (ERROR, ''Analysis''), (WARNING, ''Relationships'')]"
    and "list_all (\<lambda>k. stats (snd (run_all_checks smart_tags_fault_env
                                (init (lit ''a.docx'') False))) k = None)
           [''smart_tags'', ''content_controls'', ''field_codes'', ''equations'', ''hyperlinks'']"
    and "stats (snd (run_all_checks smart_tags_fault_env (init (lit ''a.docx'') False)))
           ''embedded_objects'' = Some (SInt 0)"
    and "stats (snd (run_all_checks smart_tags_fault_env (init (lit ''a.docx'') False)))
           ''media_files'' = Some (SInt 0)"
proof -
  let ?zf = "\<lparr>archive = archive_document_only, closed = False\<rparr>"
  define st2 where "st2 = set_stat ''zip_files'' (SInt (length (namelist archive_document_only)))
       ((set_stat ''file_size_mb'' (SCenti 0)
           (set_stat ''file_size'' (SInt 1000) (init (lit ''a.docx'') False)))
          \<lparr>zip_file := Some ?zf\<rparr>)"
  define st3 where "st3 = check_required_files st2"
  define st4 where "st4 = analyze_handler (OtherError (lit ''out of memory''))
                            (check_tracked_changes doc_two_revisions st3)"
  define st5 where "st5 = add_issue WARNING ''Relationships''
      (lit ''Document relationships file not found'') (Some rels_path) None None st4"
  define st6 where "st6 = set_stat ''media_files'' (SInt 0) (set_stat ''embedded_objects'' (SInt 0) st5)"
  have z2: "zip_file st2 = Some ?zf" and i2: "issues st2 = []"
    by (simp_all add: st2_def)
  have z3: "zip_file st3 = Some ?zf"
    and i3: "map sev_cat (issues st3) =
      [(ERROR, ''DOCX Structure''), (ERROR, ''DOCX Structure''),
       (INFO, ''DOCX Structure''), (INFO, ''DOCX Structure''), (INFO, ''DOCX Structure'')]"
    and s3: "stats st3 = stats st2"
    using archive_document_only_required [OF z2] by (simp_all add: st3_def z2 i2)
  have z4: "zip_file st4 = Some ?zf"
    by (simp add: st4_def z3)
  have i4: "map sev_cat (issues st4) = map sev_cat (issues st3)
              @ [(WARNING, ''Tracked Changes''), (ERROR, ''Analysis'')]"
    by (simp add: st4_def analyze_handler_issues handler_category_def check_tracked_changes_def
          Let_def doc_two_revisions_findall)
  have s4: "stats st4 k = stats st2 k" if "k \<noteq> ''tracked_changes''" for k
    using that by (simp add: st4_def s3 check_tracked_changes_def Let_def)
  have b: "check_relationships smart_tags_fault_env st4 = st5"
    unfolding st5_def
    by (rule check_relationships_missing [OF z4]) (simp add: archive_document_only_facts)
  have z5: "zip_file st5 = Some ?zf"
    by (simp add: st5_def z4)
  have c: "check_embedded_objects st5 = st6"
    unfolding st6_def
    by (rule check_embedded_objects_none [OF z5]) (simp_all add: archive_document_only_facts)
  have r': "snd (run_all_checks smart_tags_fault_env (init (lit ''a.docx'') False)) = close_zip st6"
    using r by (simp add: st2_def [symmetric] st3_def [symmetric] st4_def [symmetric] b c)
  show "map sev_cat (issues (snd (run_all_checks smart_tags_fault_env (init (lit ''a.docx'') False))))
          = [(ERROR, ''DOCX Structure''), (ERROR, ''DOCX Structure''),
             (INFO, ''DOCX Structure''), (INFO, ''DOCX Structure''), (INFO, ''DOCX Structure''),
             (WARNING, ''Tracked Changes''), (ERROR, ''Analysis''), (WARNING, ''Relationships'')]"
    by (simp add: r' st6_def st5_def i4 i3)
  show "list_all (\<lambda>k. stats (snd (run_all_checks smart_tags_fault_env
                                (init (lit ''a.docx'') False))) k = None)
           [''smart_tags'', ''content_controls'', ''field_codes'', ''equations'', ''hyperlinks'']"
    by (simp add: r' st6_def st5_def s4 st2_def)
  show "stats (snd (run_all_checks smart_tags_fault_env (init (lit ''a.docx'') False)))
           ''embedded_objects'' = Some (SInt 0)"
    by (simp add: r' st6_def)
  show "stats (snd (run_all_checks smart_tags_fault_env (init (lit ''a.docx'') False)))
           ''media_files'' = Some (SInt 0)"
    by (simp add: r' st6_def)
qed

theorem exception_in_check_skips_later_checks_witness:
  "analyze_document_xml smart_tags_fault_env (opened [(lit ''word/document.xml'', doc_bytes)]) =
     analyze_handler (OtherError (lit ''out of memory''))
       (check_tracked_changes doc_two_revisions (opened [(lit ''word/document.xml'', doc_bytes)]))
   \<and> map sev_cat (issues (snd (run_all_checks smart_tags_fault_env (init (lit ''a.docx'') False))))
       = [(ERROR, ''DOCX Structure''), (ERROR, ''DOCX Structure''),
          (INFO, ''DOCX Structure''), (INFO, ''DOCX Structure''), (INFO, ''DOCX Structure''),
          (WARNING, ''Tracked Changes''), (ERROR, ''Analysis''), (WARNING, ''Relationships'')]
   \<and> list_all (\<lambda>k. stats (snd (run_all_checks smart_tags_fault_env
                                (init (lit ''a.docx'') False))) k = None)
        [''smart_tags'', ''content_controls'', ''field_codes'', ''equations'', ''hyperlinks'']
   \<and> stats (snd (run_all_checks smart_tags_fault_env (init (lit ''a.docx'') False)))
        ''embedded_objects'' = Some (SInt 0)
   \<and> stats (snd (run_all_checks smart_tags_fault_env (init (lit ''a.docx'') False)))
        ''media_files'' = Some (SInt 0)"
proof -
  let ?zf = "\<lparr>archive = archive_document_only, closed = False\<rparr>"
  let ?st1 = "set_stat ''file_size_mb'' (SCenti 0)
                (set_stat ''file_size'' (SInt 1000) (init (lit ''a.docx'') False))"
  let ?st2 = "set_stat ''zip_files'' (SInt (length (namelist archive_document_only))) (?st1\<lparr>zip_file := Some ?zf\<rparr>)"
  have h1: "zip_file (opened [(lit ''word/document.xml'', doc_bytes)]) =
      Some \<lparr>archive = \<lparr>testzip = Inr None, entries = [(lit ''word/document.xml'', doc_bytes)]\<rparr>,
             closed = False\<rparr>"
    by simp
  have h3: "fromstring smart_tags_fault_env doc_bytes = Inr doc_two_revisions"
    by (simp add: parse_table_def)
  have h4: "fault smart_tags_fault_env SmartTags = Some (OtherError (lit ''out of memory''))"
    by simp
  have h5: "\<forall>c' \<in> set (checks_before SmartTags). fault smart_tags_fault_env c' = None"
    by (simp add: checks_before_SmartTags)
  have g1: "zip_file (check_required_files ?st2) = Some ?zf"
    by simp
  have g2: "zip_read (archive ?zf) (lit ''word/document.xml'') = Some doc_bytes"
    by (simp add: archive_document_only_facts)
  have a: "analyze_document_xml smart_tags_fault_env (opened [(lit ''word/document.xml'', doc_bytes)]) =
     analyze_handler (OtherError (lit ''out of memory''))
       (check_tracked_changes doc_two_revisions (opened [(lit ''word/document.xml'', doc_bytes)]))"
    using exception_in_check_skips_later_checks [OF h1 opened_document h3 h4 h5]
    by (simp add: checks_before_SmartTags doc_bytes_clean)
  have r: "snd (run_all_checks smart_tags_fault_env (init (lit ''a.docx'') False)) =
          close_zip (check_embedded_objects (check_relationships smart_tags_fault_env
            (analyze_handler (OtherError (lit ''out of memory''))
               (check_tracked_changes doc_two_revisions (check_required_files ?st2)))))"
    using exception_in_check_skips_later_checks [OF g1 g2 h3 h4 h5,
            of "init (lit ''a.docx'') False" ?st1 ?st2]
    by (simp add: checks_before_SmartTags doc_bytes_clean smart_tags_fault_env_loader)
  from a smart_tags_fault_run [OF r] show ?thesis
    by simp
qed

text \<open>
  C2 as stated fails when an exception arises in \<open>_check_smart_tags\<close> on the example
  document: the handler records \<open>Analysis/ERROR\<close>, and the five checks that follow do not
  run. None of them records its statistic, which each of them does whenever it runs;
  without the exception the same document gets its hyperlink statistic. The same holds
  in the whole run on the package that holds only that document, where the relationship
  check and the embedded-object scan, which come after the block, do run.
\<close>

theorem exception_aborts_sibling_checks_counterexample:
  "fault smart_tags_fault_env SmartTags = Some (OtherError (lit ''out of memory''))
   \<and> map sev_cat (issues (analyze_document_xml smart_tags_fault_env
         (opened [(lit ''word/document.xml'', doc_bytes)])))
       = [(WARNING, ''Tracked Changes''), (ERROR, ''Analysis'')]
   \<and> list_all (\<lambda>k. stats (analyze_document_xml smart_tags_fault_env
         (opened [(lit ''word/document.xml'', doc_bytes)])) k = None)
       [''smart_tags'', ''content_controls'', ''field_codes'', ''equations'', ''hyperlinks'']
   \<and> stats (analyze_document_xml
         (example_env (Inl (BadZipFile [])) [(doc_bytes, doc_two_revisions)])
         (opened [(lit ''word/document.xml'', doc_bytes)])) ''hyperlinks'' = Some (SInt 0)
   \<and> map sev_cat (issues (snd (run_all_checks smart_tags_fault_env (init (lit ''a.docx'') False))))
       = [(ERROR, ''DOCX Structure''), (ERROR, ''DOCX Structure''),
          (INFO, ''DOCX Structure''), (INFO, ''DOCX Structure''), (INFO, ''DOCX Structure''),
          (WARNING, ''Tracked Changes''), (ERROR, ''Analysis''), (WARNING, ''Relationships'')]
   \<and> list_all (\<lambda>k. stats (snd (run_all_checks smart_tags_fault_env
                                (init (lit ''a.docx'') False))) k = None)
        [''smart_tags'', ''content_controls'', ''field_codes'', ''equations'', ''hyperlinks'']
   \<and> stats (snd (run_all_checks smart_tags_fault_env (init (lit ''a.docx'') False)))
        ''embedded_objects'' = Some (SInt 0)
   \<and> stats (snd (run_all_checks
         (example_env (Inr archive_document_only) [(doc_bytes, doc_two_revisions)])
         (init (lit ''a.docx'') False))) ''hyperlinks'' = Some (SInt 0)"
proof -
  let ?zf = "\<lparr>archive = archive_document_only, closed = False\<rparr>"
  let ?st1 = "set_stat ''file_size_mb'' (SCenti 0)
                (set_stat ''file_size'' (SInt 1000) (init (lit ''a.docx'') False))"
  let ?st2 = "set_stat ''zip_files'' (SInt (length (namelist archive_document_only))) (?st1\<lparr>zip_file := Some ?zf\<rparr>)"
  have a: "analyze_document_xml smart_tags_fault_env (opened [(lit ''word/document.xml'', doc_bytes)]) =
     analyze_handler (OtherError (lit ''out of memory''))
       (check_tracked_changes doc_two_revisions (opened [(lit ''word/document.xml'', doc_bytes)]))"
    by (simp add: analyze_document_xml_def zip_read_def parse_table_def doc_bytes_clean
          element_checks_def run_check_def returns_def)
  have b: "analyze_document_xml
         (example_env (Inl (BadZipFile [])) [(doc_bytes, doc_two_revisions)])
         (opened [(lit ''word/document.xml'', doc_bytes)])
       = doc_checks (example_env (Inl (BadZipFile [])) [(doc_bytes, doc_two_revisions)])
           (opened [(lit ''word/document.xml'', doc_bytes)])"
    by (rule analyze_example_document [OF opened_simps(3) opened_document])
  have c: "analyze_document_xml smart_tags_fault_env (check_required_files ?st2) =
     analyze_handler (OtherError (lit ''out of memory''))
       (check_tracked_changes doc_two_revisions (check_required_files ?st2))"
    by (simp add: analyze_document_xml_def archive_document_only_facts parse_table_def
          doc_bytes_clean element_checks_def run_check_def returns_def)
  have r: "snd (run_all_checks smart_tags_fault_env (init (lit ''a.docx'') False)) =
          close_zip (check_embedded_objects (check_relationships smart_tags_fault_env
            (analyze_handler (OtherError (lit ''out of memory''))
               (check_tracked_changes doc_two_revisions (check_required_files ?st2)))))"
    using run_all_checks_pass [OF smart_tags_fault_env_loader(1) [of "lit ''a.docx''" False]
            smart_tags_fault_env_loader(2)]
    by (simp add: c)
  note e = example_run [OF archive_document_only_facts archive_document_only_required,
      of "lit ''a.docx''" False]
  show ?thesis
    using smart_tags_fault_run [OF r] e(3)
    by (simp add: a b doc_checks_stats analyze_handler_issues handler_category_def
          check_tracked_changes_def Let_def doc_two_revisions_findall)
qed

section \<open>Relationship entries\<close>

lemma classify_rel_cases:
  "classify_rel names rel =
     (if is_external rel then External (rel_target rel)
      else if is_broken names rel then Broken (rel_target rel) (rel_type_name (rel_type rel))
      else Resolved)"
  by (simp add: classify_rel_def is_external_def is_broken_def resolve_target_def
        rel_target_def rel_target_mode_def rel_type_def Let_def)

lemma external_refs_filter:
  "external_refs (map (classify_rel names) rels) = map rel_target (filter is_external rels)"
  by (induction rels) (simp_all add: external_refs_def List.map_filter_simps classify_rel_cases)

lemma broken_refs_filter:
  "broken_refs (map (classify_rel names) rels) =
     map (\<lambda>rel. (rel_target rel, rel_type_name (rel_type rel))) (filter (is_broken names) rels)"
  by (induction rels)
     (simp_all add: broken_refs_def List.map_filter_simps classify_rel_cases is_broken_def)

lemma rel_ftp_attrs:
  "rel_target rel_ftp = lit ''ftp://example.com/a.bin''"
  "rel_target_mode rel_ftp = []"
  "rel_type rel_ftp = lit ''http://schemas.openxmlformats.org/officeDocument/2006/relationships/hyperlink''"
  by (simp_all add: rel_ftp_def rel_target_def rel_target_mode_def rel_type_def get_default_def
        get_def lit_eq_iff)

lemma rel_escaping_attrs:
  "rel_target rel_escaping = lit ''../../customXml/item1.xml''"
  "rel_target_mode rel_escaping = []"
  "rel_type rel_escaping = lit ''http://schemas.openxmlformats.org/officeDocument/2006/relationships/customXml''"
  by (simp_all add: rel_escaping_def rel_target_def rel_target_mode_def rel_type_def get_default_def
        get_def lit_eq_iff)

lemma resolve_target_ftp:
  "resolve_target (lit ''ftp://example.com/a.bin'') = lit ''word/ftp:/example.com/a.bin''"
  by (simp add: resolve_target_def normpath_def normpath_step_def replace_def
        startswith_def lit_def Let_def)

lemma resolve_target_escaping:
  "resolve_target (lit ''../../customXml/item1.xml'') = lit ''../customXml/item1.xml''"
  by (simp add: resolve_target_def normpath_def normpath_step_def replace_def
        startswith_def lit_def Let_def)

lemma rels_entries_facts:
  "namelist \<lparr>testzip = Inr None, entries = rels_entries\<rparr> = rels_names"
  "rels_path \<in> set rels_names"
  "zip_read \<lparr>testzip = Inr None, entries = rels_entries\<rparr> rels_path = Some rels_bytes"
  by (simp_all add: namelist_def zip_read_def rels_entries_def rels_names_def rels_path_def)

lemma rels_root_findall: "findall rel_tag rels_root = [rel_ftp, rel_escaping]"
  by (simp add: findall_def rels_root_def rel_ftp_def rel_escaping_def rel_tag_def qname_eq_iff)

lemma str_nat_1: "str_nat (Suc 0) = lit ''1''"
  by (simp add: str_nat.simps lit_def)

lemma lit_append: "lit a @ lit b = lit (a @ b)"
  by (simp add: lit_def)

lemma lstrip_dot_slash_examples:
  "lstrip_dot_slash (lit ''ftp://example.com/a.bin'') = lit ''ftp://example.com/a.bin''"
  "lstrip_dot_slash (lit ''../../customXml/item1.xml'') = lit ''customXml/item1.xml''"
  by (simp_all add: lstrip_dot_slash_def lit_def)

lemma rel_type_name_hyperlink:
  "rel_type_name (lit ''http://schemas.openxmlformats.org/officeDocument/2006/relationships/hyperlink'')
     = lit ''hyperlink''"
  by (simp add: rel_type_name_def lit_def)

lemma is_external_examples: "\<not> is_external rel_ftp" "\<not> is_external rel_escaping"
  by (simp_all add: is_external_def rel_ftp_attrs rel_escaping_attrs)

lemma is_broken_examples: "is_broken rels_names rel_ftp" "\<not> is_broken rels_names rel_escaping"
  by (simp_all add: is_broken_def is_external_examples rel_ftp_attrs rel_escaping_attrs
        resolve_target_ftp resolve_target_escaping rels_names_def lstrip_dot_slash_examples)

lemma check_relationships_issues:
  assumes "zip_file st = Some zf"
    and "rels_path \<in> set (namelist (archive zf))"
    and "zip_read (archive zf) rels_path = Some content"
    and "fromstring ev content = Inr root"
  shows "issues (check_relationships ev st) =
           issues st
           @ (let brk = filter (is_broken (namelist (archive zf))) (findall rel_tag root)
              in if brk = [] then []
                 else [\<lparr>severity = WARNING, category = ''Broken References'',
                        message = lit ''Found '' @ str_nat (length brk)
                                    @ lit '' broken internal reference(s)'',
                        location = Some (lit ''Types: '' @ join (lit '', '')
                                     (set_order ev (map (\<lambda>r. rel_type_name (rel_type r)) brk))),
                        context' = None,
                        suggestion = Some (lit ''Some referenced files are missing. Document may have been edited externally.'')\<rparr>])
           @ (let ext = filter is_external (findall rel_tag root)
              in if ext = [] then []
                 else [\<lparr>severity = INFO, category = ''External References'',
                        message = lit ''Document contains '' @ str_nat (length ext)
                                    @ lit '' external reference(s) (URLs)'',
                        location = None, context' = None, suggestion = None\<rparr>])"
  using assms
  by (simp add: check_relationships_def external_refs_filter broken_refs_filter Let_def comp_def)

text \<open>
  C8, as amended. In \<open>_check_relationships\<close>, when the relationships part is in the package
  and parses, an entry counts as external exactly when its target mode is \<open>External\<close> or
  its target starts with \<open>http\<close>, and an external entry is never counted as broken. Any
  other entry counts as broken exactly when neither its resolved and normalized target
  nor its target without its leading dots and slashes is a part of the package. The check
  records one \<open>Broken References\<close> warning that counts the broken entries when there is one,
  then one \<open>External References\<close> note that counts the external entries when there is one,
  and nothing else.
\<close>

theorem relationship_entries_classified:
  assumes "zip_file st = Some zf"
    and "rels_path \<in> set (namelist (archive zf))"
    and "zip_read (archive zf) rels_path = Some content"
    and "fromstring ev content = Inr root"
  shows "classify_rel names rel =
           (if is_external rel then External (rel_target rel)
            else if is_broken names rel then Broken (rel_target rel) (rel_type_name (rel_type rel))
            else Resolved)
         \<and> issues (check_relationships ev st) =
           issues st
           @ (let brk = filter (is_broken (namelist (archive zf))) (findall rel_tag root)
              in if brk = [] then []
                 else [\<lparr>severity = WARNING, category = ''Broken References'',
                        message = lit ''Found '' @ str_nat (length brk)
                                    @ lit '' broken internal reference(s)'',
                        location = Some (lit ''Types: '' @ join (lit '', '')
                                     (set_order ev (map (\<lambda>r. rel_type_name (rel_type r)) brk))),
                        context' = None,
                        suggestion = Some (lit ''Some referenced files are missing. Document may have been edited externally.'')\<rparr>])
           @ (let ext = filter is_external (findall rel_tag root)
              in if ext = [] then []
                 else [\<lparr>severity = INFO, category = ''External References'',
                        message = lit ''Document contains '' @ str_nat (length ext)
                                    @ lit '' external reference(s) (URLs)'',
                        location = None, context' = None, suggestion = None\<rparr>])"
  using assms classify_rel_cases [of names rel] check_relationships_issues [of st zf content ev root]
  by (rule_tac conjI) assumption+

theorem relationship_entries_classified_witness:
  "classify_rel rels_names rel_ftp = Broken (lit ''ftp://example.com/a.bin'') (lit ''hyperlink'')
   \<and> classify_rel rels_names rel_escaping = Resolved
   \<and> issues (check_relationships rels_env (opened rels_entries)) =
       [\<lparr>severity = WARNING, category = ''Broken References'',
         message = lit ''Found 1 broken internal reference(s)'',
         location = Some (lit ''Types: hyperlink''),
         context' = None,
         suggestion = Some (lit ''Some referenced files are missing. Document may have been edited externally.'')\<rparr>]"
proof -
  have fs: "fromstring rels_env rels_bytes = Inr rels_root"
    by (simp add: rels_env_def parse_table_def)
  have so: "set_order rels_env = remdups"
    by (simp add: rels_env_def)
  show ?thesis
    using relationship_entries_classified
            [of "opened rels_entries"
                "\<lparr>archive = \<lparr>testzip = Inr None, entries = rels_entries\<rparr>, closed = False\<rparr>"
                rels_bytes rels_env rels_root rels_names rel_ftp]
          relationship_entries_classified
            [of "opened rels_entries"
                "\<lparr>archive = \<lparr>testzip = Inr None, entries = rels_entries\<rparr>, closed = False\<rparr>"
                rels_bytes rels_env rels_root rels_names rel_escaping]
    by (simp add: rels_entries_facts fs so rels_root_findall is_broken_examples
          is_external_examples rel_ftp_attrs rel_type_name_hyperlink str_nat_1 lit_append)
qed

lemma rels_example_issues:
  "issues (check_relationships rels_env (opened rels_entries)) =
       [\<lparr>severity = WARNING, category = ''Broken References'',
         message = lit ''Found 1 broken internal reference(s)'',
         location = Some (lit ''Types: hyperlink''),
         context' = None,
         suggestion = Some (lit ''Some referenced files are missing. Document may have been edited externally.'')\<rparr>]"
proof -
  have fs: "fromstring rels_env rels_bytes = Inr rels_root"
    by (simp add: rels_env_def parse_table_def)
  have so: "set_order rels_env = remdups"
    by (simp add: rels_env_def)
  show ?thesis
    using check_relationships_issues
            [of "opened rels_entries" "\<lparr>archive = \<lparr>testzip = Inr None, entries = rels_entries\<rparr>, closed = False\<rparr>"
                rels_bytes rels_env rels_root]
    by (simp add: rels_entries_facts fs so rels_root_findall is_broken_examples
          is_external_examples rel_ftp_attrs rel_type_name_hyperlink str_nat_1 lit_append)
qed

text \<open>
  C8 as stated fails on both of its parts, in the package \<open>rels_entries\<close> whose
  relationships part holds two entries without a target mode. The target
  \<open>ftp://example.com/a.bin\<close> of the first starts with a URL scheme, yet the entry is not
  external: it is the one broken reference that the check records. The target
  \<open>../../customXml/item1.xml\<close> of the second starts with no URL scheme; resolved below
  \<open>word/\<close> and normalized it is \<open>../customXml/item1.xml\<close>, which is no part of the package,
  and it has no leading \<open>./\<close> to strip; yet the entry is not recorded as broken, because
  the target without all its leading dots and slashes is the part \<open>customXml/item1.xml\<close>.
\<close>

theorem url_scheme_target_recorded_broken_counterexample:
  "starts_with_url_scheme (rel_target rel_ftp)
   \<and> classify_rel rels_names rel_ftp = Broken (lit ''ftp://example.com/a.bin'') (lit ''hyperlink'')
   \<and> \<not> starts_with_url_scheme (rel_target rel_escaping)
   \<and> rel_target_mode rel_escaping \<noteq> lit ''External''
   \<and> resolve_target (rel_target rel_escaping) = lit ''../customXml/item1.xml''
   \<and> resolve_target (rel_target rel_escaping) \<notin> set rels_names
   \<and> strip_dot_slash_once (rel_target rel_escaping) \<notin> set rels_names
   \<and> classify_rel rels_names rel_escaping = Resolved
   \<and> findall rel_tag rels_root = [rel_ftp, rel_escaping]
   \<and> namelist \<lparr>testzip = Inr None, entries = rels_entries\<rparr> = rels_names
   \<and> issues (check_relationships rels_env (opened rels_entries)) =
       [\<lparr>severity = WARNING, category = ''Broken References'',
         message = lit ''Found 1 broken internal reference(s)'',
         location = Some (lit ''Types: hyperlink''),
         context' = None,
         suggestion = Some (lit ''Some referenced files are missing. Document may have been edited externally.'')\<rparr>]"
proof -
  have "starts_with_url_scheme (rel_target rel_ftp)"
    by (simp add: rel_ftp_attrs starts_with_url_scheme_def is_alpha_def lit_def)
  moreover have "\<not> starts_with_url_scheme (rel_target rel_escaping)"
    by (simp add: rel_escaping_attrs starts_with_url_scheme_def is_alpha_def lit_def)
  moreover have "strip_dot_slash_once (rel_target rel_escaping) \<notin> set rels_names"
    by (simp add: rel_escaping_attrs strip_dot_slash_once_def rels_names_def)
  moreover have "resolve_target (rel_target rel_escaping) \<notin> set rels_names"
    by (simp add: rel_escaping_attrs resolve_target_escaping rels_names_def)
  moreover have "classify_rel rels_names rel_ftp
                   = Broken (lit ''ftp://example.com/a.bin'') (lit ''hyperlink'')"
    by (simp add: classify_rel_cases is_broken_examples is_external_examples rel_ftp_attrs
          rel_type_name_hyperlink)
  moreover have "classify_rel rels_names rel_escaping = Resolved"
    by (simp add: classify_rel_cases is_broken_examples is_external_examples)
  ultimately show ?thesis
    by (simp add: rels_example_issues rels_root_findall rels_entries_facts rel_escaping_attrs
          resolve_target_escaping)
qed

section \<open>Verbose and quiet runs\<close>

lemma quiet_simps [simp]:
  "issues (quiet st) = filter (\<lambda>i. \<not> is_detail i) (issues st)"
  "stats (quiet st) = stats st"
  "zip_file (quiet st) = zip_file st"
  "verbose (quiet st) = False"
  "filepath (quiet st) = filepath st"
  by (simp_all add: quiet_def)

lemma silent_id: "silent (\<lambda>st. st)"
  by (simp add: silent_def)

lemma silent_add_issue:
  assumes "cat \<noteq> ''Invalid Character Detail''" and "silent f"
  shows "silent (\<lambda>st. add_issue sev cat msg loc ctx sug (f st))"
  using assms by (simp add: silent_def quiet_def add_issue_def details_def is_detail_def)

lemma silent_set_stat: "silent f \<Longrightarrow> silent (\<lambda>st. set_stat k v (f st))"
  by (simp add: silent_def quiet_def set_stat_def details_def)

lemma silent_if: "silent f \<Longrightarrow> silent g \<Longrightarrow> silent (\<lambda>st. if c then f st else g st)"
  by (simp add: silent_def)

lemma silent_comp: "silent f \<Longrightarrow> silent g \<Longrightarrow> silent (\<lambda>st. g (f st))"
  by (simp add: silent_def)

lemma silent_case_zip_file:
  assumes "silent n" and "\<And>zf. silent (s zf)"
  shows "silent (\<lambda>st. case zip_file st of None \<Rightarrow> n st | Some zf \<Rightarrow> s zf st)"
  using assms by (simp add: silent_def split: option.splits)

lemmas silent_intros = silent_if silent_add_issue silent_set_stat silent_id

lemma silent_check_tracked_changes: "silent (check_tracked_changes root)"
  unfolding check_tracked_changes_def Let_def
  by (intro silent_intros) simp_all

lemma silent_check_smart_tags: "silent (check_smart_tags root)"
  unfolding check_smart_tags_def Let_def
  by (intro silent_intros) simp_all

lemma silent_check_content_controls: "silent (check_content_controls root)"
  unfolding check_content_controls_def Let_def
  by (intro silent_intros) simp_all

lemma silent_check_field_codes: "silent (check_field_codes ev root)"
  unfolding check_field_codes_def Let_def
  by (intro silent_intros) simp_all

lemma silent_check_equations: "silent (check_equations root)"
  unfolding check_equations_def Let_def
  by (intro silent_intros) simp_all

lemma silent_check_hyperlinks: "silent (check_hyperlinks root)"
  unfolding check_hyperlinks_def Let_def
  by (intro silent_intros) simp_all

lemma silent_case_option:
  assumes "silent n" and "\<And>x. silent (s x)"
  shows "silent (\<lambda>st. case c of None \<Rightarrow> n st | Some x \<Rightarrow> s x st)"
  using assms by (cases c) simp_all

lemma silent_case_sum:
  assumes "\<And>e. silent (l e)" and "\<And>x. silent (r x)"
  shows "silent (\<lambda>st. case c of Inl e \<Rightarrow> l e st | Inr x \<Rightarrow> r x st)"
  using assms by (cases c) simp_all

lemma silent_case_prod:
  assumes "\<And>a b. silent (h a b)"
  shows "silent (case_prod h x)"
  using assms by (cases x) simp

lemma silent_fold:
  assumes "\<And>x. silent (h x)" and "silent f"
  shows "silent (\<lambda>st. fold h xs (f st))"
  using assms(2)
proof (induction xs arbitrary: f)
  case Nil
  then show ?case by simp
next
  case (Cons x xs)
  from assms(1) [of x] Cons.prems have "silent (\<lambda>st. h x (f st))"
    by (simp add: silent_def)
  from Cons.IH [OF this] show ?case by simp
qed

lemma silent_check_required_files: "silent check_required_files"
  unfolding check_required_files_def Let_def
  by (intro silent_case_zip_file silent_fold silent_case_prod silent_intros) simp_all

lemma silent_relationships_handler: "silent (relationships_handler e)"
  unfolding relationships_handler_def
  by (cases e; simp; intro silent_intros; simp)

lemma silent_analyze_handler: "silent (analyze_handler e)"
  unfolding analyze_handler_def
  by (cases e; simp; intro silent_intros; simp)

lemma silent_check_relationships: "silent (check_relationships ev)"
  unfolding check_relationships_def Let_def
  by (intro silent_case_zip_file silent_case_option silent_case_sum silent_relationships_handler
        silent_intros) simp_all

lemma silent_check_embedded_objects: "silent check_embedded_objects"
  unfolding check_embedded_objects_def Let_def
  by (intro silent_case_zip_file silent_intros) simp_all

lemma silent_close_zip: "silent close_zip"
  by (simp add: silent_def close_zip_def quiet_def details_def split: option.splits)

lemma silent_step_returns: "silent f \<Longrightarrow> silent_step (returns f)"
  by (simp add: silent_def silent_step_def returns_def)

lemma silent_step_run_check: "silent_step body \<Longrightarrow> silent_step (run_check ev c body)"
  by (simp add: silent_step_def run_check_def split: option.splits)

lemma silent_step_check_namespaces: "silent_step (check_namespaces root)"
proof -
  have a: "silent (\<lambda>st. add_issue INFO ''Custom Namespaces'' m l None s st)" for m l s
    by (intro silent_intros) simp
  show ?thesis
    by (simp add: silent_step_def check_namespaces_def Let_def a [unfolded silent_def]
          split: sum.splits)
qed

lemma silent_step_seq: "list_all silent_step fs \<Longrightarrow> silent_step (seq fs)"
proof (induction fs)
  case Nil
  show ?case by (simp add: silent_step_def)
next
  case (Cons f fs)
  then have f: "silent_step f" and fs: "silent_step (seq fs)" by simp_all
  show ?case
    unfolding silent_step_def
  proof (intro allI)
    fix st
    obtain r st' where r: "f st = (r, st')" by (cases "f st")
    with f have q: "f (quiet st) = (r, quiet st')" and d: "details st' = details st"
      by (auto simp: silent_step_def dest: spec [of _ st])
    from fs have "seq fs (quiet st') = apsnd quiet (seq fs st')"
      and "details (snd (seq fs st')) = details st'"
      by (simp_all add: silent_step_def)
    with r q d show "seq (f # fs) (quiet st) = apsnd quiet (seq (f # fs) st)
        \<and> details (snd (seq (f # fs) st)) = details st"
      by (cases r) simp_all
  qed
qed

lemma silent_step_element_checks: "silent_step (element_checks ev root)"
  unfolding element_checks_def
  by (intro silent_step_seq)
     (simp add: silent_step_run_check silent_step_returns silent_check_tracked_changes
        silent_check_smart_tags silent_check_content_controls silent_check_field_codes
        silent_check_equations silent_check_hyperlinks silent_step_check_namespaces)

lemma silent_after_checks:
  "after_checks (apsnd quiet r) = quiet (after_checks r)"
  "details (after_checks r) = details (snd r)"
  using silent_analyze_handler
  by (cases r; cases "fst r"; simp add: silent_def)+

lemma silent_step_check_file_exists: "silent_step (check_file_exists ev)"
proof -
  have a: "silent (\<lambda>st. add_issue sev ''File Access'' (m st) None None None st)"
    if "\<And>st. m (quiet st) = m st" for sev m
    using that by (simp add: silent_def quiet_def add_issue_def details_def is_detail_def)
  have b: "silent (\<lambda>st. add_issue sev ''File Access'' m None None None
              (set_stat k v (set_stat k' v' st)))" for sev m k v k' v'
    by (intro silent_intros) simp
  have c: "silent (\<lambda>st. add_issue sev ''File Size'' m None None None
              (set_stat k v (set_stat k' v' st)))" for sev m k v k' v'
    by (intro silent_intros) simp
  have d: "silent (\<lambda>st. set_stat k v (set_stat k' v' st))" for k v k' v'
    by (intro silent_intros)
  have e: "silent (\<lambda>st. add_issue ERROR ''File Access'' (p @ filepath st) None None None st)" for p
    by (rule a) simp
  show ?thesis
    unfolding silent_step_def check_file_exists_def Let_def
    using b c d e by (simp add: silent_def)
qed

lemma silent_zip_error: "silent (zip_error e)"
  unfolding zip_error_def
  by (cases e; simp; intro silent_intros; simp)

lemma silent_zip_file_update: "silent (\<lambda>st. st\<lparr>zip_file := z\<rparr>)"
  by (simp add: silent_def quiet_def details_def)

lemma silent_step_check_zip_structure: "silent_step (check_zip_structure ev)"
proof -
  have a: "silent (\<lambda>st. zip_error e (st\<lparr>zip_file := z\<rparr>))" for e z
    using silent_comp [OF silent_zip_file_update silent_zip_error] .
  have b: "silent (\<lambda>st. add_issue ERROR ''ZIP Structure'' m None None s (st\<lparr>zip_file := z\<rparr>))"
    for m s z
    by (intro silent_intros silent_zip_file_update) simp
  have c: "silent (\<lambda>st. set_stat k v (st\<lparr>zip_file := z\<rparr>))" for k v z
    by (intro silent_intros silent_zip_file_update)
  show ?thesis
    unfolding silent_step_def check_zip_structure_def Let_def
    using a b c silent_zip_error
    by (simp add: silent_def split: sum.splits)
qed

lemma detail_fold:
  "quiet (fold (\<lambda>item s. add_issue sev ''Invalid Character Detail'' (m item) l (c item) sg s) xs st)
     = quiet st"
  "details (fold (\<lambda>item s. add_issue sev ''Invalid Character Detail'' (m item) l (c item) sg s) xs st)
     = details st @ map (\<lambda>item. \<lparr>severity = sev, category = ''Invalid Character Detail'',
                                   message = m item, location = l, context' = c item,
                                   suggestion = sg\<rparr>) xs"
  by (induction xs arbitrary: st)
     (simp_all add: quiet_def details_def is_detail_def add_issue_def)

lemma check_invalid_characters_quiet:
  "check_invalid_characters content fn (quiet st) = quiet (check_invalid_characters content fn st)"
proof -
  have a: "silent (\<lambda>st. add_issue ERROR ''Encoding'' m l None s st)" for m l s
    by (intro silent_intros) simp
  have b: "silent (\<lambda>st. add_issue ERROR ''Invalid Characters'' m l c s st)" for m l c s
    by (intro silent_intros) simp
  show ?thesis
    unfolding check_invalid_characters_def Let_def
    by (simp add: a [unfolded silent_def] b [unfolded silent_def] detail_fold split: sum.splits)
qed

lemma check_invalid_characters_details:
  "\<exists>ds. details (check_invalid_characters content fn st) = details st @ ds
        \<and> length ds \<le> 5 \<and> list_all (\<lambda>i. severity i = INFO) ds"
proof -
  have a: "silent (\<lambda>st. add_issue ERROR ''Encoding'' m l None s st)" for m l s
    by (intro silent_intros) simp
  have b: "silent (\<lambda>st. add_issue ERROR ''Invalid Characters'' m l c s st)" for m l c s
    by (intro silent_intros) simp
  show ?thesis
    unfolding check_invalid_characters_def Let_def
    by (simp add: a [unfolded silent_def] b [unfolded silent_def] detail_fold list_all_iff
          split: sum.splits)
qed

lemma analyze_document_xml_quiet:
  "analyze_document_xml ev (quiet st) = quiet (analyze_document_xml ev st)"
proof (cases "zip_file st")
  case None
  then show ?thesis by (simp add: analyze_document_xml_def)
next
  case (Some zf)
  show ?thesis
  proof (cases "zip_read (archive zf) (lit ''word/document.xml'')")
    case None
    with Some silent_analyze_handler show ?thesis
      by (simp add: analyze_document_xml_def silent_def)
  next
    case content: (Some content)
    let ?st1 = "check_invalid_characters content (lit ''word/document.xml'') st"
    have q: "check_invalid_characters content (lit ''word/document.xml'') (quiet st) = quiet ?st1"
      by (rule check_invalid_characters_quiet)
    have x: "silent (\<lambda>st. add_issue ERROR ''XML Parsing'' m None None s st)" for m s
      by (intro silent_intros) simp
    show ?thesis
    proof (cases "fromstring ev content")
      case (Inl e)
      with Some content q silent_analyze_handler [of e] x show ?thesis
        by (cases e) (simp_all add: analyze_document_xml_def silent_def)
    next
      case (Inr root)
      from silent_step_element_checks [of ev root]
      have "element_checks ev root (quiet ?st1) = apsnd quiet (element_checks ev root ?st1)"
        by (simp add: silent_step_def)
      with Some content q Inr show ?thesis
        by (simp add: analyze_document_xml_def silent_after_checks)
    qed
  qed
qed

lemma analyze_document_xml_details:
  "\<exists>ds. details (analyze_document_xml ev st) = details st @ ds
        \<and> length ds \<le> 5 \<and> list_all (\<lambda>i. severity i = INFO) ds"
proof (cases "zip_file st")
  case None
  then show ?thesis by (simp add: analyze_document_xml_def)
next
  case (Some zf)
  show ?thesis
  proof (cases "zip_read (archive zf) (lit ''word/document.xml'')")
    case None
    with Some silent_analyze_handler show ?thesis
      by (simp add: analyze_document_xml_def silent_def)
  next
    case content: (Some content)
    let ?st1 = "check_invalid_characters content (lit ''word/document.xml'') st"
    obtain ds where ds: "details ?st1 = details st @ ds" "length ds \<le> 5"
        "list_all (\<lambda>i. severity i = INFO) ds"
      using check_invalid_characters_details by blast
    have x: "silent (\<lambda>st. add_issue ERROR ''XML Parsing'' m None None s st)" for m s
      by (intro silent_intros) simp
    have "details (analyze_document_xml ev st) = details ?st1"
    proof (cases "fromstring ev content")
      case (Inl e)
      with Some content silent_analyze_handler [of e] x show ?thesis
        by (cases e) (simp_all add: analyze_document_xml_def silent_def)
    next
      case (Inr root)
      from silent_step_element_checks [of ev root]
      have "details (snd (element_checks ev root ?st1)) = details ?st1"
        by (simp add: silent_step_def)
      with Some content Inr show ?thesis
        by (simp add: analyze_document_xml_def silent_after_checks)
    qed
    with ds show ?thesis by auto
  qed
qed

lemma count_severity_quiet:
  assumes "list_all (\<lambda>i. severity i = INFO) (filter is_detail xs)"
  shows "sev \<noteq> INFO \<Longrightarrow>
           count_severity sev (filter (\<lambda>i. \<not> is_detail i) xs) = count_severity sev xs"
    and "count_severity INFO xs
           = count_severity INFO (filter (\<lambda>i. \<not> is_detail i) xs) + length (filter is_detail xs)"
  using assms by (induction xs) (auto simp: count_severity_def)

lemma run_all_checks_quiet:
  "snd (run_all_checks ev (quiet st)) = quiet (snd (run_all_checks ev st))
   \<and> (\<exists>ds. details (snd (run_all_checks ev st)) = details st @ ds
          \<and> length ds \<le> 5 \<and> list_all (\<lambda>i. severity i = INFO) ds)
   \<and> (details st = [] \<longrightarrow> fst (run_all_checks ev (quiet st)) = fst (run_all_checks ev st))"
proof -
  obtain ok1 st1 where c1: "check_file_exists ev st = (ok1, st1)"
    by (cases "check_file_exists ev st")
  with silent_step_check_file_exists [of ev]
  have q1: "check_file_exists ev (quiet st) = (ok1, quiet st1)" and d1: "details st1 = details st"
    by (auto simp: silent_step_def dest: spec [of _ st])
  obtain ok2 st2 where c2: "check_zip_structure ev st1 = (ok2, st2)"
    by (cases "check_zip_structure ev st1")
  with silent_step_check_zip_structure [of ev]
  have q2: "check_zip_structure ev (quiet st1) = (ok2, quiet st2)" and d2: "details st2 = details st1"
    by (auto simp: silent_step_def dest: spec [of _ st1])
  show ?thesis
  proof (cases "ok1 \<and> ok2")
    case False
    with c1 q1 d1 c2 q2 d2 show ?thesis
      by (cases ok1; cases ok2) (simp_all add: run_all_checks_def)
  next
    case True
    define st3 where "st3 = check_required_files st2"
    define st4 where "st4 = analyze_document_xml ev st3"
    define st5 where "st5 = check_relationships ev st4"
    define st6 where "st6 = check_embedded_objects st5"
    define st7 where "st7 = close_zip st6"
    have q3: "check_required_files (quiet st2) = quiet st3" and d3: "details st3 = details st2"
      using silent_check_required_files by (simp_all add: silent_def st3_def)
    have q4: "analyze_document_xml ev (quiet st3) = quiet st4"
      by (simp add: st4_def analyze_document_xml_quiet)
    obtain ds where d4: "details st4 = details st3 @ ds" and ds: "length ds \<le> 5"
        "list_all (\<lambda>i. severity i = INFO) ds"
      unfolding st4_def using analyze_document_xml_details by blast
    have q5: "check_relationships ev (quiet st4) = quiet st5" and d5: "details st5 = details st4"
      using silent_check_relationships [of ev] by (simp_all add: silent_def st5_def)
    have q6: "check_embedded_objects (quiet st5) = quiet st6" and d6: "details st6 = details st5"
      using silent_check_embedded_objects by (simp_all add: silent_def st6_def)
    have q7: "close_zip (quiet st6) = quiet st7" and d7: "details st7 = details st6"
      using silent_close_zip by (simp_all add: silent_def st7_def)
    have r: "run_all_checks ev st = (count_severity ERROR (issues st7) = 0, st7)"
      using True c1 c2
      by (simp add: run_all_checks_def Let_def st3_def st4_def st5_def st6_def st7_def)
    have i7: "issues st7 = issues st6"
      by (simp add: st7_def)
    have rq: "run_all_checks ev (quiet st) = (count_severity ERROR (issues (quiet st7)) = 0, quiet st7)"
      using True q1 q2 by (simp add: run_all_checks_def Let_def q3 q4 q5 q6 q7 i7)
    have d: "details st7 = details st @ ds"
      by (simp add: d7 d6 d5 d4 d3 d2 d1)
    have "count_severity ERROR (issues (quiet st7)) = count_severity ERROR (issues st7)"
      if "details st = []"
      using count_severity_quiet(1) [of "issues st7" ERROR] d ds(2) that
      by (simp add: details_def)
    with r rq d ds show ?thesis by simp
  qed
qed

lemma quiet_init: "quiet (init path v) = init path False"
  by (simp add: quiet_def init_def)

text \<open>
  C10. For every input, the run with verbose mode on and the run with it off return the
  same result and give reports with the same status, the same \<open>ERROR\<close> and \<open>WARNING\<close>
  counts, the same statistics and the same file. The issues of the quiet run are those of
  the verbose run without its \<open>Invalid Character Detail\<close> issues, in the same order; these
  are at most five, all of severity \<open>INFO\<close>, and the \<open>INFO\<close> count differs by their number.
  The quiet run records no such issue.
\<close>

theorem verbose_adds_only_details:
  "fst (run_all_checks ev (init path True)) = fst (run_all_checks ev (init path False))
   \<and> status (analyze ev path True) = status (analyze ev path False)
   \<and> errors (analyze ev path True) = errors (analyze ev path False)
   \<and> warnings (analyze ev path True) = warnings (analyze ev path False)
   \<and> statistics (analyze ev path True) = statistics (analyze ev path False)
   \<and> file' (analyze ev path True) = file' (analyze ev path False)
   \<and> issues (snd (run_all_checks ev (init path False)))
       = filter (\<lambda>i. \<not> is_detail i) (issues (snd (run_all_checks ev (init path True))))
   \<and> issue_dicts (analyze ev path False)
       = map to_dict (filter (\<lambda>i. \<not> is_detail i)
                        (issues (snd (run_all_checks ev (init path True)))))
   \<and> length (filter is_detail (issues (snd (run_all_checks ev (init path True))))) \<le> 5
   \<and> list_all (\<lambda>i. severity i = INFO)
        (filter is_detail (issues (snd (run_all_checks ev (init path True)))))
   \<and> info (analyze ev path True)
       = info (analyze ev path False)
         + length (filter is_detail (issues (snd (run_all_checks ev (init path True)))))
   \<and> filter is_detail (issues (snd (run_all_checks ev (init path False)))) = []"
proof -
  let ?a = "snd (run_all_checks ev (init path True))"
  let ?b = "snd (run_all_checks ev (init path False))"
  note r = run_all_checks_quiet [of ev "init path True"]
  have d0: "details (init path True) = []"
    by (simp add: details_def init_def)
  have b: "?b = quiet ?a"
    using r by (simp add: quiet_init)
  have f: "fst (run_all_checks ev (init path True)) = fst (run_all_checks ev (init path False))"
    using r d0 by (simp add: quiet_init)
  obtain ds where ds: "details ?a = ds" "length ds \<le> 5" "list_all (\<lambda>i. severity i = INFO) ds"
    using r d0 by auto
  have la: "list_all (\<lambda>i. severity i = INFO) (filter is_detail (issues ?a))"
    using ds by (simp add: details_def)
  note c = count_severity_quiet [OF la]
  have e: "count_severity ERROR (issues ?b) = count_severity ERROR (issues ?a)"
    and w: "count_severity WARNING (issues ?b) = count_severity WARNING (issues ?a)"
    and i: "count_severity INFO (issues ?a)
              = count_severity INFO (issues ?b) + length (filter is_detail (issues ?a))"
    using c(1) [of ERROR] c(1) [of WARNING] c(2) by (simp_all add: b)
  have s: "stats ?b = stats ?a" and p: "filepath ?b = filepath ?a"
    and iss: "issues ?b = filter (\<lambda>i. \<not> is_detail i) (issues ?a)"
    by (simp_all add: b)
  have n: "filter is_detail (issues ?b) = []"
    by (simp add: iss)
  from f e w i s p iss n ds la show ?thesis
    by (simp add: analyze_def get_summary_def Let_def details_def)
qed

section \<open>A verbose and a quiet run on a part with a control character\<close>

lemma invalid_found_length: "length (invalid_found t) = length (filter is_invalid_char t)"
proof -
  have "filter is_invalid_char (map ((!) t) [0..<length t])
          = map ((!) t) (filter (is_invalid_char \<circ> (!) t) [0..<length t])"
    by (rule filter_map)
  then have "length (filter is_invalid_char t)
          = length (filter (is_invalid_char \<circ> (!) t) [0..<length t])"
    by (simp add: map_nth)
  then show ?thesis
    by (simp add: invalid_found_def comp_def)
qed

lemma check_invalid_characters_found:
  assumes "decode_utf8 content = Inr t" and "filter is_invalid_char t \<noteq> []"
  shows "map sev_cat (issues (check_invalid_characters content fn st)) =
           map sev_cat (issues st) @ (ERROR, ''Invalid Characters'')
             # (if verbose st
                then replicate (min 5 (length (filter is_invalid_char t)))
                       (INFO, ''Invalid Character Detail'')
                else [])"
proof -
  have n: "invalid_found t \<noteq> []"
    using assms(2) invalid_found_length [of t] by (metis length_0_conv)
  have l: "min (length (invalid_found t)) 5 = min 5 (length (filter is_invalid_char t))"
    by (simp add: invalid_found_length min.commute)
  show ?thesis
    using n
    by (simp add: check_invalid_characters_def assms(1) Let_def fold_add_issue comp_def
          sev_cat_def map_replicate_const l)
qed

lemma ctrl_bytes_decode:
  "decode_utf8 ctrl_bytes = Inr (lit ctrl_text)"
  "filter is_invalid_char (lit ctrl_text) = [1]"
  "filter is_invalid_char (lit ctrl_text) \<noteq> []"
proof -
  show "decode_utf8 ctrl_bytes = Inr (lit ctrl_text)"
    unfolding ctrl_bytes_def by (rule decode_utf8_ascii) (simp add: ctrl_text_def)
  show f: "filter is_invalid_char (lit ctrl_text) = [1]"
    by (simp add: ctrl_text_def lit_def is_invalid_char_iff)
  show "filter is_invalid_char (lit ctrl_text) \<noteq> []"
    unfolding f by simp
qed

lemma ctrl_env_simps [simp]:
  "fromstring ctrl_env content =
     Inl (ParseError (lit ''not well-formed (invalid token): line 1, column 3''))"
  by (simp add: ctrl_env_def)

lemma ctrl_env_loader:
  "check_file_exists ctrl_env (init p v) =
     (True, set_stat ''file_size_mb'' (SCenti 0) (set_stat ''file_size'' (SInt 1000) (init p v)))"
  "check_zip_structure ctrl_env st =
     (True, set_stat ''zip_files'' (SInt (length (namelist archive_ctrl)))
              (st\<lparr>zip_file := Some \<lparr>archive = archive_ctrl, closed = False\<rparr>\<rparr>))"
  by (simp_all add: check_file_exists_def check_zip_structure_def ctrl_env_def
        example_env_def file_size_mb_def Let_def archive_ctrl_def truthy_def)

lemma archive_ctrl_facts:
  "zip_read archive_ctrl (lit ''word/document.xml'') = Some ctrl_bytes"
  "rels_path \<notin> set (namelist archive_ctrl)"
  "filter (\<lambda>f. startswith f (lit ''word/embeddings/'')) (namelist archive_ctrl) = []"
  "filter (\<lambda>f. startswith f (lit ''word/media/'')) (namelist archive_ctrl) = []"
  by (simp_all add: zip_read_def archive_ctrl_def namelist_def rels_path_def)

lemma archive_ctrl_required:
  "zip_file st = Some \<lparr>archive = archive_ctrl, closed = False\<rparr> \<Longrightarrow>
   map sev_cat (issues (check_required_files st)) = map sev_cat (issues st) @
      [(ERROR, ''DOCX Structure''), (ERROR, ''DOCX Structure''),
       (INFO, ''DOCX Structure''), (INFO, ''DOCX Structure''), (INFO, ''DOCX Structure'')]"
  by (simp add: check_required_files_def archive_ctrl_def namelist_def
        REQUIRED_FILES_def optional_files_def Let_def)

lemma ctrl_run_verbose:
  "map sev_cat (issues (snd (run_all_checks ctrl_env (init (lit ''a.docx'') True)))) =
     [(ERROR, ''DOCX Structure''), (ERROR, ''DOCX Structure''),
      (INFO, ''DOCX Structure''), (INFO, ''DOCX Structure''), (INFO, ''DOCX Structure''),
      (ERROR, ''Invalid Characters''), (INFO, ''Invalid Character Detail''),
      (ERROR, ''XML Parsing''), (WARNING, ''Relationships'')]"
proof -
  let ?zf = "\<lparr>archive = archive_ctrl, closed = False\<rparr>"
  define st2 where "st2 = set_stat ''zip_files'' (SInt (length (namelist archive_ctrl)))
       ((set_stat ''file_size_mb'' (SCenti 0)
           (set_stat ''file_size'' (SInt 1000) (init (lit ''a.docx'') True)))
          \<lparr>zip_file := Some ?zf\<rparr>)"
  define st3 where "st3 = check_required_files st2"
  define st4 where "st4 = analyze_document_xml ctrl_env st3"
  define st5 where "st5 = add_issue WARNING ''Relationships''
      (lit ''Document relationships file not found'') (Some rels_path) None None st4"
  define st6 where "st6 = set_stat ''media_files'' (SInt 0) (set_stat ''embedded_objects'' (SInt 0) st5)"
  have z2: "zip_file st2 = Some ?zf" and i2: "issues st2 = []" and v2: "verbose st2"
    by (simp_all add: st2_def)
  have z3: "zip_file st3 = Some ?zf" and v3: "verbose st3"
    and i3: "map sev_cat (issues st3) =
      [(ERROR, ''DOCX Structure''), (ERROR, ''DOCX Structure''),
       (INFO, ''DOCX Structure''), (INFO, ''DOCX Structure''), (INFO, ''DOCX Structure'')]"
    using archive_ctrl_required [OF z2] by (simp_all add: st3_def z2 i2 v2)
  have z4: "zip_file st4 = Some ?zf"
    by (simp add: st4_def z3)
  have a: "st4 = add_issue ERROR ''XML Parsing''
      (lit ''Failed to parse document.xml: ''
         @ lit ''not well-formed (invalid token): line 1, column 3'') None None
      (Some (lit ''Document XML is malformed. Check for invalid characters or corrupted content.''))
      (check_invalid_characters ctrl_bytes (lit ''word/document.xml'') st3)"
    by (simp add: st4_def analyze_document_xml_def z3 archive_ctrl_facts)
  have i4: "map sev_cat (issues st4) = map sev_cat (issues st3) @
      [(ERROR, ''Invalid Characters''), (INFO, ''Invalid Character Detail''),
       (ERROR, ''XML Parsing'')]"
    by (simp add: a check_invalid_characters_found [OF ctrl_bytes_decode(1,3)]
          ctrl_bytes_decode(2) v3)
  have b: "check_relationships ctrl_env st4 = st5"
    unfolding st5_def
    by (rule check_relationships_missing [OF z4]) (simp add: archive_ctrl_facts)
  have z5: "zip_file st5 = Some ?zf"
    by (simp add: st5_def z4)
  have c: "check_embedded_objects st5 = st6"
    unfolding st6_def
    by (rule check_embedded_objects_none [OF z5]) (simp_all add: archive_ctrl_facts)
  have r: "snd (run_all_checks ctrl_env (init (lit ''a.docx'') True)) = close_zip st6"
    using run_all_checks_pass [OF ctrl_env_loader(1) [of "lit ''a.docx''" True] ctrl_env_loader(2)]
    by (simp add: st2_def [symmetric] st3_def [symmetric] st4_def [symmetric] b c)
  show ?thesis
    by (simp add: r st6_def st5_def i4 i3)
qed

lemma sev_cat_filter_detail:
  "map sev_cat (filter (\<lambda>i. \<not> is_detail i) xs)
     = filter (\<lambda>p. snd p \<noteq> ''Invalid Character Detail'') (map sev_cat xs)"
  "length (filter is_detail xs)
     = length (filter (\<lambda>p. snd p = ''Invalid Character Detail'') (map sev_cat xs))"
  by (induction xs) (simp_all add: sev_cat_def is_detail_def)

text \<open>
  The property at a part that holds one control character: the verbose run records the
  issues of the quiet run and one \<open>Invalid Character Detail\<close> issue, after the
  \<open>Invalid Characters\<close> error; the \<open>INFO\<close> counts differ by one.
\<close>

theorem verbose_adds_only_details_witness:
  "map sev_cat (issues (snd (run_all_checks ctrl_env (init (lit ''a.docx'') True)))) =
     [(ERROR, ''DOCX Structure''), (ERROR, ''DOCX Structure''),
      (INFO, ''DOCX Structure''), (INFO, ''DOCX Structure''), (INFO, ''DOCX Structure''),
      (ERROR, ''Invalid Characters''), (INFO, ''Invalid Character Detail''),
      (ERROR, ''XML Parsing''), (WARNING, ''Relationships'')]
   \<and> map sev_cat (issues (snd (run_all_checks ctrl_env (init (lit ''a.docx'') False)))) =
     [(ERROR, ''DOCX Structure''), (ERROR, ''DOCX Structure''),
      (INFO, ''DOCX Structure''), (INFO, ''DOCX Structure''), (INFO, ''DOCX Structure''),
      (ERROR, ''Invalid Characters''), (ERROR, ''XML Parsing''), (WARNING, ''Relationships'')]
   \<and> info (analyze ctrl_env (lit ''a.docx'') True) = info (analyze ctrl_env (lit ''a.docx'') False) + 1
   \<and> status (analyze ctrl_env (lit ''a.docx'') True) = status (analyze ctrl_env (lit ''a.docx'') False)"
proof -
  note t = verbose_adds_only_details [of ctrl_env "lit ''a.docx''"]
  have q: "map sev_cat (issues (snd (run_all_checks ctrl_env (init (lit ''a.docx'') False)))) =
     filter (\<lambda>p. snd p \<noteq> ''Invalid Character Detail'')
       (map sev_cat (issues (snd (run_all_checks ctrl_env (init (lit ''a.docx'') True)))))"
    using t by (simp add: sev_cat_filter_detail(1))
  have n: "length (filter is_detail (issues (snd (run_all_checks ctrl_env (init (lit ''a.docx'') True))))) = 1"
    by (simp add: sev_cat_filter_detail(2) ctrl_run_verbose)
  from t have "info (analyze ctrl_env (lit ''a.docx'') True)
      = info (analyze ctrl_env (lit ''a.docx'') False)
        + length (filter is_detail (issues (snd (run_all_checks ctrl_env (init (lit ''a.docx'') True)))))"
    by simp
  then have i: "info (analyze ctrl_env (lit ''a.docx'') True)
      = info (analyze ctrl_env (lit ''a.docx'') False) + 1"
    unfolding n .
  from t have s: "status (analyze ctrl_env (lit ''a.docx'') True)
      = status (analyze ctrl_env (lit ''a.docx'') False)"
    by simp
  from i s show ?thesis
    by (simp add: q ctrl_run_verbose)
qed

section \<open>Two runs on the same input\<close>












lemma agree_comp: "agree f g \<Longrightarrow> agree f' g' \<Longrightarrow> agree (\<lambda>st. f' (f st)) (\<lambda>st. g' (g st))"
  by (simp add: agree_def)
































lemma order_free_issue_simps [simp]:
  "severity (order_free_issue i) = severity i"
  "category (order_free_issue i) = category i"
  "message (order_free_issue i) = message i"
  "context' (order_free_issue i) = context' i"
  "suggestion (order_free_issue i) = suggestion i"
  "location (order_free_issue i) =
     (if category i = ''Field Codes'' \<or> category i = ''Broken References'' then None
      else location i)"
  by (simp_all add: order_free_issue_def)






section \<open>Two runs with different set orders\<close>





lemma fields_env_simps [simp]:
  "fromstring (fields_env so) = parse_table [(fields_bytes, doc_two_fields)]"
  "fault (fields_env so) = (\<lambda>c. None)"
  "str_upper (fields_env so) = ascii_upper"
  "set_order (fields_env so) = so"
  by (simp_all add: fields_env_def)









end
